theory Spec2Isabelle
  imports Complex_Main
begin

section \<open>The NLU orchestrator of \<^verbatim>\<open>server/src/core/nlp/nlu/nlu.ts\<close>\<close>

text \<open>
  The class \<^verbatim>\<open>NLU\<close> is embedded with explicit state passing. The fields of the
  instance and of the process-wide collaborators it writes to (\<^verbatim>\<open>BRAIN.lang\<close>, the
  conversation, the tokenization child process) form the record \<open>nlu\<close>; what the
  collaborators answer (classifiers, NER, Brain executor, files, clock) is a parameter
  \<open>env\<close>; what the code says and emits is appended to a trace of events. Exceptions and
  promise rejections are values.

  What the model takes for granted: the classifiers, \<^verbatim>\<open>getSpacyEntities\<close>,
  \<^verbatim>\<open>getIntentDomain\<close> and \<^verbatim>\<open>getMandatorySlots\<close> return (the NER extraction, the reads
  of files and the executor may throw); the executor's reply has the fields that the
  source reads, its execution time possibly absent; scores are real numbers and times
  are integers (milliseconds); the log lines are left out.
\<close>

subsection \<open>Strings\<close>

text \<open>
  Strings are byte lists. \<^verbatim>\<open>toLowerCase\<close> is modelled on the ASCII letters,
  \<^verbatim>\<open>s.split(c)\<close> for a one-character separator \<open>c\<close> keeps empty pieces, as
  JavaScript does (\<^verbatim>\<open>''a  b''.split(' ')\<close> has three pieces, \<^verbatim>\<open>''''.split(' ')\<close> one).
\<close>

definition lower_char :: "char \<Rightarrow> char" where
  "lower_char c =
     (case map_of (zip ''ABCDEFGHIJKLMNOPQRSTUVWXYZ'' ''abcdefghijklmnopqrstuvwxyz'') c of
        Some d \<Rightarrow> d
      | None \<Rightarrow> c)"

definition toLowerCase :: "string \<Rightarrow> string" where
  "toLowerCase s = map lower_char s"

fun split_on :: "char \<Rightarrow> string \<Rightarrow> string list" where
  "split_on c [] = [[]]"
| "split_on c (x # xs) =
     (if x = c then [] # split_on c xs
      else (case split_on c xs of [] \<Rightarrow> [[x]] | w # ws \<Rightarrow> (x # w) # ws))"

text \<open>\<^verbatim>\<open>const [skillName, actionName] = intent.split('.')\<close>: the first piece always
  exists, the second is \<^verbatim>\<open>undefined\<close> when the intent has no dot.\<close>

definition skillName_of :: "string \<Rightarrow> string" where
  "skillName_of intent = (case split_on CHR ''.'' intent of [] \<Rightarrow> [] | s # _ \<Rightarrow> s)"

definition actionName_of :: "string \<Rightarrow> string option" where
  "actionName_of intent = (case split_on CHR ''.'' intent of _ # a # _ \<Rightarrow> Some a | _ \<Rightarrow> None)"

text \<open>\<^verbatim>\<open>s.includes(t)\<close> and \<^verbatim>\<open>s.indexOf(t) !== -1\<close>: \<open>t\<close> occurs in \<open>s\<close> as a
  contiguous piece.\<close>

fun str_includes :: "string \<Rightarrow> string \<Rightarrow> bool" where
  "str_includes [] t = (t = [])"
| "str_includes (x # xs) t = (take (length t) (x # xs) = t \<or> str_includes xs t)"

text \<open>\<^verbatim>\<open>intent.substring(intent.lastIndexOf('.') + 1)\<close>: what follows the last dot, the
  whole string when there is none.\<close>

definition after_last_dot :: "string \<Rightarrow> string" where
  "after_last_dot s = rev (takeWhile (\<lambda>c. c \<noteq> CHR ''.'') (rev s))"

text \<open>\<^verbatim>\<open>path.join\<close> on segments that need no normalisation.\<close>

fun join :: "string list \<Rightarrow> string" where
  "join [] = ''.''"
| "join [p] = p"
| "join (p # q # ps) = p @ ''/'' @ join (q # ps)"

subsection \<open>Data model\<close>

record ner_entity =
  entity :: string
  sourceText :: string

record resolver =
  resolver_name :: string
  resolver_value :: string

record slot =
  slot_name :: string
  expectedEntity :: string
  pickedQuestion :: string
  suggestions :: "string list"
  isFilled :: bool
  slot_value :: "ner_entity option"

text \<open>An object whose keys are slot names, in insertion order.\<close>

type_synonym slots = "(string \<times> slot) list"

record classification =
  domain :: "string option"
  skill :: "string option"
  action :: "string option"
  confidence :: "real option"

record nlu_result =
  utterance :: "string option"
  currentEntities :: "ner_entity list"
  entities :: "ner_entity list"
  currentResolvers :: "resolver list"
  resolvers :: "resolver list"
  slots :: "slots option"
  configDataFilePath :: "string option"
  answers :: "string list"
  classification :: classification

definition defaultNluResultObj :: nlu_result where
  "defaultNluResultObj =
     \<lparr> utterance = None, currentEntities = [], entities = [], currentResolvers = [],
       resolvers = [], slots = None, configDataFilePath = None, answers = [],
       classification = \<lparr> domain = None, skill = None, action = None, confidence = Some 0 \<rparr> \<rparr>"

record fallback_entry =
  fb_words :: "string list"
  fb_domain :: string
  fb_skill :: string
  fb_action :: string

datatype error =
    TypeError
  | ReadError
  | NerError string
  | ExecutorError string
  | ModelFileMissing
  | LoadError string
  | NlpModelMissing
  | EmptyRejection

text \<open>
  What a method hands back: \<^verbatim>\<open>null\<close>, the empty object \<^verbatim>\<open>{}\<close>, the object
  \<^verbatim>\<open>{processingTime, message}\<close>, the Brain's reply as it is, or the Brain's reply
  between \<^verbatim>\<open>processingTime\<close> and \<^verbatim>\<open>nluProcessingTime\<close>. The execution time of a
  reply may be absent (\<^verbatim>\<open>undefined\<close>); \<^verbatim>\<open>nluProcessingTime\<close> is then \<^verbatim>\<open>NaN\<close>,
  written \<open>None\<close>.
\<close>

record processed_data =
  executionTime :: "int option"
  pd_classification :: classification
  next_action :: "string option"
  action_loop :: bool
  pd_nextAction :: "bool option"
  core_restart :: bool
  core_isInActionLoop :: "bool option"
  pd_utterance :: "string option"
  pd_configDataFilePath :: "string option"
  pd_slots :: slots

datatype reply =
    Null
  | EmptyObj
  | NotFound int string
  | Processed processed_data
  | Timed int processed_data "int option"

text \<open>
  How a call ends: it returns (a promise resolves), it throws (a promise rejects), or it
  never settles: an exception inside the \<^verbatim>\<open>async\<close> executor of
  \<^verbatim>\<open>new Promise(async (resolve, reject) => ...)\<close> settles nothing.
\<close>

datatype 'a completion = Returned 'a | Thrown error | Stuck

text \<open>JavaScript truthiness of a string that may be absent, and the image of an absent
  value in a template literal.\<close>

definition truthy :: "string option \<Rightarrow> bool" where
  "truthy x = (case x of None \<Rightarrow> False | Some s \<Rightarrow> s \<noteq> [])"

definition tmpl_null :: "string option \<Rightarrow> string" where
  "tmpl_null x = (case x of None \<Rightarrow> ''null'' | Some s \<Rightarrow> s)"

definition tmpl_undefined :: "string option \<Rightarrow> string" where
  "tmpl_undefined x = (case x of None \<Rightarrow> ''undefined'' | Some s \<Rightarrow> s)"

subsection \<open>The conversation store\<close>

record active_context =
  ctx_name :: "string option"
  ctx_lang :: string
  ctx_slots :: slots
  isInActionLoop :: bool
  originalUtterance :: "string option"
  ctx_configDataFilePath :: "string option"
  actionName :: "string option"
  ctx_domain :: "string option"
  ctx_intent :: string
  ctx_entities :: "ner_entity list"
  ctx_currentEntities :: "ner_entity list"
  nextAction :: "string option"

text \<open>
  Modelled from the spec: the class \<^verbatim>\<open>Conversation\<close> (\<^verbatim>\<open>@/core/conversation\<close>) is
  not among the sources. The store always holds a context object (the source reads
  \<^verbatim>\<open>this.conv.activeContext.name\<close> without asking \<^verbatim>\<open>hasActiveContext\<close> first); a
  cleared store holds the default one, which has no name.
\<close>

definition defaultActiveContext :: active_context where
  "defaultActiveContext =
     \<lparr> ctx_name = None, ctx_lang = [], ctx_slots = [], isInActionLoop = False,
       originalUtterance = None, ctx_configDataFilePath = None, actionName = None,
       ctx_domain = None, ctx_intent = [], ctx_entities = [], ctx_currentEntities = [],
       nextAction = None \<rparr>"

text \<open>Modelled from the spec: \<^verbatim>\<open>HasActiveContext\<close> of the absent class
  \<^verbatim>\<open>Conversation\<close>.\<close>

definition hasActiveContext :: "active_context \<Rightarrow> bool" where
  "hasActiveContext c = (ctx_name c \<noteq> None)"

text \<open>Modelled from the spec: \<^verbatim>\<open>CleanActiveContext\<close> of the absent class
  \<^verbatim>\<open>Conversation\<close> (``clear'').\<close>

definition cleanActiveContext :: "active_context \<Rightarrow> active_context" where
  "cleanActiveContext c = defaultActiveContext"

text \<open>Modelled from the spec: the derived name \<open>{domain}.{skill}\<close> of a context, the
  skill being the first piece of the intent \<open>{skill}.{action}\<close>.\<close>

definition context_name :: "string option \<Rightarrow> string \<Rightarrow> string" where
  "context_name d intent = tmpl_null d @ ''.'' @ skillName_of intent"

text \<open>
  Modelled from the spec: \<^verbatim>\<open>SetActiveContext\<close> of the absent class
  \<^verbatim>\<open>Conversation\<close>: ``if ctx.name \<open>\<noteq>\<close> current.name, discard current; else merge
  (update slots/entities while preserving originalUtterance)'', with \<open>entities\<close> ``inherited
  from the active context plus current'' and \<open>currentEntities\<close> those of the utterance just
  received. The spec does not say where \<open>nextAction\<close> comes from; it is the parameter
  \<open>na\<close>.
\<close>

definition setActiveContext :: "string option \<Rightarrow> active_context \<Rightarrow> active_context \<Rightarrow> active_context" where
  "setActiveContext na cur new =
     (let n = context_name (ctx_domain new) (ctx_intent new) in
      if ctx_name cur \<noteq> Some n
      then new\<lparr> ctx_name := Some n, ctx_currentEntities := ctx_entities new, nextAction := na \<rparr>
      else new\<lparr> ctx_name := Some n, originalUtterance := originalUtterance cur,
                ctx_entities := ctx_entities cur @ ctx_entities new,
                ctx_currentEntities := ctx_entities new, nextAction := na \<rparr>)"

text \<open>Modelled from the spec: \<^verbatim>\<open>GetNotFilledSlot\<close> of the absent class
  \<^verbatim>\<open>Conversation\<close>: ``first unfilled slot in declaration order''.\<close>

definition getNotFilledSlot :: "active_context \<Rightarrow> slot option" where
  "getNotFilledSlot c = List.find (\<lambda>sl. \<not> isFilled sl) (map snd (ctx_slots c))"

text \<open>Modelled from the spec: \<^verbatim>\<open>AreSlotsAllFilled\<close> of the absent class
  \<^verbatim>\<open>Conversation\<close>.\<close>

definition areSlotsAllFilled :: "active_context \<Rightarrow> bool" where
  "areSlotsAllFilled c = list_all (\<lambda>sl. isFilled sl) (map snd (ctx_slots c))"

text \<open>Modelled from the spec: \<^verbatim>\<open>SetSlots\<close> of the absent class \<^verbatim>\<open>Conversation\<close>:
  ``for every slot whose expectedEntity matches any entity name in entities, record its
  value and mark isFilled=true''.\<close>

definition fill_slot :: "ner_entity list \<Rightarrow> slot \<Rightarrow> slot" where
  "fill_slot es sl =
     (case List.find (\<lambda>e. entity e = expectedEntity sl) es of
        None \<Rightarrow> sl
      | Some e \<Rightarrow> sl\<lparr> isFilled := True, slot_value := Some e \<rparr>)"

definition setSlots :: "ner_entity list \<Rightarrow> active_context \<Rightarrow> active_context" where
  "setSlots es c = c\<lparr> ctx_slots := map (\<lambda>(k, sl). (k, fill_slot es sl)) (ctx_slots c) \<rparr>"

subsection \<open>Skill configuration files\<close>

record expected_item =
  item_name :: string
  item_type :: string

record action_cfg =
  cfg_slots :: "slot list option"
  cfg_loop :: "expected_item option option"

record resolver_def =
  intents :: "(string \<times> string) list"

record skill_config =
  actions :: "(string \<times> action_cfg) list option"
  cfg_resolvers :: "(string \<times> resolver_def) list option"

subsection \<open>Collaborators\<close>

record nlp_result =
  res_locale :: string
  res_answers :: "string list"
  classifications :: "(string \<times> real) list"
  res_score :: real
  res_intent :: string
  res_domain :: string

text \<open>
  What the collaborators answer. \<open>None\<close> and \<open>Inl\<close> stand for an exception. The
  classifiers answer by utterance; \<open>readConfig\<close> is
  \<^verbatim>\<open>JSON.parse(fs.readFileSync(path, 'utf8'))\<close>; \<open>clock\<close> gives the time at each
  instant, an instant passing with each reading of \<^verbatim>\<open>Date.now()\<close> and with each run of
  the executor; \<open>context_nextAction\<close> is the next action that the conversation store
  attaches to a context (by configuration path and action name).
\<close>

record env =
  getSpacyEntities :: "string \<Rightarrow> (string \<times> string) list"
  mainNlp_process :: "string \<Rightarrow> nlp_result"
  getIntentDomain :: "string \<Rightarrow> string \<Rightarrow> string"
  getMandatorySlots :: "string \<Rightarrow> slots"
  extractEntities :: "string \<Rightarrow> string \<Rightarrow> nlu_result \<Rightarrow> error + ner_entity list"
  globalResolvers_process :: "string \<Rightarrow> string option"
  skillsResolvers_process :: "string \<Rightarrow> string option"
  readConfig :: "string \<Rightarrow> skill_config option"
  readGlobalResolver :: "string \<Rightarrow> resolver_def option"
  brain_execute :: "nlu_result \<Rightarrow> string + processed_data"
  getShortCodes :: "string list"
  getLongCode :: "string \<Rightarrow> string"
  langs_fallbacks :: "string \<Rightarrow> fallback_entry list option"
  clock :: "nat \<Rightarrow> int"
  cwd :: string
  spawn_pid :: "string \<Rightarrow> nat"
  tcp_server_bin_path :: string
  context_nextAction :: "string option \<Rightarrow> string option \<Rightarrow> string option"

subsection \<open>State and events\<close>

datatype phrase =
    Wernicke string
  | WernickeNluError string
  | WernickeCode string
  | Question string

datatype event =
    Talk string "phrase list" bool
  | IsTyping bool
  | Suggest "string list"
  | AddEntities string string string
  | Execute nlu_result
  | Kill nat
  | Spawn string
  | Connect
  | OnConnected string

text \<open>
  A model field holds the own keys of the object (\<^verbatim>\<open>Object.keys\<close>); \<open>ner\<close> says
  whether \<^verbatim>\<open>this.ner\<close> is a \<^verbatim>\<open>Ner\<close> instance. \<open>Talk l p e\<close> is a
  \<^verbatim>\<open>BRAIN.talk\<close> made while \<^verbatim>\<open>BRAIN.lang\<close> was \<open>l\<close>, with second argument \<open>e\<close>.
\<close>

record nlu =
  globalResolversNlp :: "string list"
  skillsResolversNlp :: "string list"
  mainNlp :: "string list"
  ner :: bool
  conv :: active_context
  nluResultObj :: nlu_result
  brain_lang :: string
  brain_isMuted :: bool
  tcpServerProcess :: nat
  ticks :: nat
  trace :: "event list"

definition emit :: "event list \<Rightarrow> nlu \<Rightarrow> nlu" where
  "emit es s = s\<lparr> trace := trace s @ es \<rparr>"

definition talk :: "phrase list \<Rightarrow> bool \<Rightarrow> nlu \<Rightarrow> nlu" where
  "talk p e s = emit [Talk (brain_lang s) p e] s"

definition date_now :: "env \<Rightarrow> nlu \<Rightarrow> int \<times> nlu" where
  "date_now E s = (clock E (ticks s), s\<lparr> ticks := Suc (ticks s) \<rparr>)"

text \<open>What a run of \<^verbatim>\<open>BRAIN.execute\<close> on the result object \<open>r\<close> leaves in the state,
  whatever it answers: the run is recorded, and an instant has passed.\<close>

definition executed :: "nlu_result \<Rightarrow> nlu \<Rightarrow> nlu" where
  "executed r s = s\<lparr> ticks := Suc (ticks s), trace := trace s @ [Execute r] \<rparr>"

text \<open>The constructor.\<close>

definition new_NLU :: "string \<Rightarrow> bool \<Rightarrow> nat \<Rightarrow> nlu" where
  "new_NLU lang muted pid =
     \<lparr> globalResolversNlp = [], skillsResolversNlp = [], mainNlp = [], ner = False,
       conv = defaultActiveContext, nluResultObj = defaultNluResultObj, brain_lang = lang,
       brain_isMuted = muted, tcpServerProcess = pid, ticks = 0, trace = [] \<rparr>"

subsection \<open>Model loader and readiness\<close>

text \<open>
  What happens to one loader: the model file does not exist; the container could not be
  set up (an exception before the field is assigned); the field was assigned the
  container's \<^verbatim>\<open>nlp\<close> object, whose keys are given, and then \<^verbatim>\<open>load\<close> threw, is
  still awaited, or succeeded.
\<close>

datatype load_outcome =
    FileMissing
  | SetupFailed string
  | LoadFailed "string list" string
  | LoadPending "string list"
  | Loaded "string list"

definition load_failure :: "string \<Rightarrow> nlu \<Rightarrow> nlu" where
  "load_failure msg s =
     emit [IsTyping False] (talk [Wernicke ''random_errors'', WernickeNluError msg] False s)"

fun loadGlobalResolversModel :: "load_outcome \<Rightarrow> nlu \<Rightarrow> unit completion \<times> nlu" where
  "loadGlobalResolversModel FileMissing s = (Thrown ModelFileMissing, s)"
| "loadGlobalResolversModel (SetupFailed msg) s = (Thrown (LoadError msg), load_failure msg s)"
| "loadGlobalResolversModel (LoadFailed ks msg) s =
     (Thrown (LoadError msg), load_failure msg (s\<lparr> globalResolversNlp := ks \<rparr>))"
| "loadGlobalResolversModel (LoadPending ks) s = (Stuck, s\<lparr> globalResolversNlp := ks \<rparr>)"
| "loadGlobalResolversModel (Loaded ks) s = (Returned (), s\<lparr> globalResolversNlp := ks \<rparr>)"

fun loadSkillsResolversModel :: "load_outcome \<Rightarrow> nlu \<Rightarrow> unit completion \<times> nlu" where
  "loadSkillsResolversModel FileMissing s = (Thrown ModelFileMissing, s)"
| "loadSkillsResolversModel (SetupFailed msg) s = (Thrown (LoadError msg), load_failure msg s)"
| "loadSkillsResolversModel (LoadFailed ks msg) s =
     (Thrown (LoadError msg), load_failure msg (s\<lparr> skillsResolversNlp := ks \<rparr>))"
| "loadSkillsResolversModel (LoadPending ks) s = (Stuck, s\<lparr> skillsResolversNlp := ks \<rparr>)"
| "loadSkillsResolversModel (Loaded ks) s = (Returned (), s\<lparr> skillsResolversNlp := ks \<rparr>)"

fun loadMainModel :: "load_outcome \<Rightarrow> nlu \<Rightarrow> unit completion \<times> nlu" where
  "loadMainModel FileMissing s = (Thrown ModelFileMissing, s)"
| "loadMainModel (SetupFailed msg) s = (Thrown (LoadError msg), load_failure msg s)"
| "loadMainModel (LoadFailed ks msg) s =
     (Thrown (LoadError msg), load_failure msg (s\<lparr> mainNlp := ks \<rparr>))"
| "loadMainModel (LoadPending ks) s = (Stuck, s\<lparr> mainNlp := ks \<rparr>)"
| "loadMainModel (Loaded ks) s = (Returned (), s\<lparr> mainNlp := ks, ner := True \<rparr>)"

text \<open>\<^verbatim>\<open>Promise.all\<close>: rejected when one of the three is, resolved when all three are.
  The three loaders write to different fields; they are run here one after the other.\<close>

fun is_thrown :: "'a completion \<Rightarrow> bool" where
  "is_thrown (Thrown e) = True"
| "is_thrown c = False"

definition promise_all :: "unit completion list \<Rightarrow> unit completion" where
  "promise_all cs =
     (case List.find is_thrown cs of
        Some c \<Rightarrow> c
      | None \<Rightarrow> if Stuck \<in> set cs then Stuck else Returned ())"

definition loadNLPModels ::
  "load_outcome \<Rightarrow> load_outcome \<Rightarrow> load_outcome \<Rightarrow> nlu \<Rightarrow> unit completion \<times> nlu" where
  "loadNLPModels g k m s =
     (let (c1, s1) = loadGlobalResolversModel g s;
          (c2, s2) = loadSkillsResolversModel k s1;
          (c3, s3) = loadMainModel m s2
      in (promise_all [c1, c2, c3], s3))"

definition hasNlpModels :: "nlu \<Rightarrow> bool" where
  "hasNlpModels s =
     (length (globalResolversNlp s) > 0 \<and> length (skillsResolversNlp s) > 0 \<and>
      length (mainNlp s) > 0)"

text \<open>The object that a loader has stored in its field when it is done with the outcome
  given: none (no key) when it never reached the assignment.\<close>

fun assigned_keys :: "load_outcome \<Rightarrow> string list" where
  "assigned_keys FileMissing = []"
| "assigned_keys (SetupFailed msg) = []"
| "assigned_keys (LoadFailed ks msg) = ks"
| "assigned_keys (LoadPending ks) = ks"
| "assigned_keys (Loaded ks) = ks"

subsection \<open>Language switch\<close>

text \<open>
  \<^verbatim>\<open>switchLanguage\<close> up to its \<^verbatim>\<open>return {}\<close>: the callback given to \<^verbatim>\<open>kill\<close> has not
  run yet.
\<close>

definition switchLanguage :: "nlu \<Rightarrow> string \<Rightarrow> string \<Rightarrow> reply \<times> nlu" where
  "switchLanguage s u loc =
     (let s1 = s\<lparr> brain_lang := loc \<rparr>;
          s2 = talk [Wernicke ''random_language_switch''] True s1;
          s3 = emit [Kill (tcpServerProcess s2)] s2
      in (EmptyObj, s3))"

text \<open>
  The callback of \<^verbatim>\<open>kill\<close>, run once the process tree is gone. \<^verbatim>\<open>removeListener\<close> is
  given the handler created by this very call, which was never registered, and removes
  nothing.
\<close>

definition switchLanguage_killed :: "env \<Rightarrow> nlu \<Rightarrow> string \<Rightarrow> string \<Rightarrow> nlu" where
  "switchLanguage_killed E s u loc =
     (let cmd = tcp_server_bin_path E @ '' '' @ loc;
          s1 = emit [Spawn cmd] (s\<lparr> tcpServerProcess := spawn_pid E cmd \<rparr>)
      in emit [Connect, OnConnected u] s1)"

subsection \<open>NER gateway calls\<close>

definition mergeSpacyEntities :: "env \<Rightarrow> nlu \<Rightarrow> string \<Rightarrow> nlu" where
  "mergeSpacyEntities E s u =
     emit (map (\<lambda>(e, v). AddEntities e v (brain_lang s)) (getSpacyEntities E u)) s"

text \<open>\<^verbatim>\<open>this.ner.extractEntities(BRAIN.lang, configDataFilePath, this.nluResultObj)\<close>;
  \<^verbatim>\<open>this.ner\<close> is \<^verbatim>\<open>{}\<close> until the main model is loaded.\<close>

definition ner_extractEntities :: "env \<Rightarrow> nlu \<Rightarrow> string \<Rightarrow> error + ner_entity list" where
  "ner_extractEntities E s path =
     (if ner s then extractEntities E (brain_lang s) path (nluResultObj s) else Inl TypeError)"

definition skill_config_path :: "env \<Rightarrow> nlu \<Rightarrow> string \<Rightarrow> string \<Rightarrow> string" where
  "skill_config_path E s d sk =
     join [cwd E, ''skills'', d, sk, ''config/'' @ brain_lang s @ ''.json'']"

subsection \<open>The fallback matcher\<close>

text \<open>
  The inner \<^verbatim>\<open>for j\<close> loop of \<^verbatim>\<open>fallback\<close>: every word of the entry that the
  utterance contains is pushed on \<^verbatim>\<open>tmpWords\<close>.
\<close>

fun push_present :: "string list \<Rightarrow> string list \<Rightarrow> string list \<Rightarrow> string list" where
  "push_present ws [] tmpWords = tmpWords"
| "push_present ws (w # rest) tmpWords =
     push_present ws rest (if w \<in> set ws then tmpWords @ [w] else tmpWords)"

text \<open>
  The outer \<^verbatim>\<open>for i\<close> loop. \<^verbatim>\<open>tmpWords\<close> is declared before the loop, so it is an
  argument that each entry passes on to the next. The two \<^verbatim>\<open>JSON.stringify\<close> images are
  equal exactly when the two arrays of strings are.
\<close>

fun fallback_loop ::
  "string list \<Rightarrow> fallback_entry list \<Rightarrow> string list \<Rightarrow> nlu_result \<Rightarrow> nlu_result option" where
  "fallback_loop ws [] tmpWords r = None"
| "fallback_loop ws (f # fs) tmpWords r =
     (let tmpWords' = push_present ws (fb_words f) tmpWords in
      if tmpWords' = fb_words f
      then Some (r\<lparr> entities := [],
                   classification := (classification r)
                     \<lparr> domain := Some (fb_domain f), skill := Some (fb_skill f),
                       action := Some (fb_action f), confidence := Some 1 \<rparr> \<rparr>)
      else fallback_loop ws fs tmpWords' r)"

text \<open>
  \<^verbatim>\<open>fallback(fallbacks)\<close> on \<^verbatim>\<open>this.nluResultObj\<close>: \<open>Inr None\<close> is the \<^verbatim>\<open>false\<close> of
  the source, \<open>Inr (Some r)\<close> the mutated result object, \<open>Inl TypeError\<close> the exception of
  \<^verbatim>\<open>null.toLowerCase()\<close>.
\<close>

definition fallback :: "nlu_result \<Rightarrow> fallback_entry list \<Rightarrow> error + nlu_result option" where
  "fallback r fallbacks =
     (case utterance r of
        None \<Rightarrow> Inl TypeError
      | Some u \<Rightarrow>
          (let ws = split_on CHR '' '' (toLowerCase u) in
           if length fallbacks > 0 then Inr (fallback_loop ws fallbacks [] r) else Inr None))"

text \<open>What a match on the entry \<open>f\<close> makes of the result object.\<close>

definition matched_result :: "nlu_result \<Rightarrow> fallback_entry \<Rightarrow> nlu_result" where
  "matched_result r f =
     r\<lparr> entities := [],
        classification := (classification r)
          \<lparr> domain := Some (fb_domain f), skill := Some (fb_skill f),
            action := Some (fb_action f), confidence := Some 1 \<rparr> \<rparr>"

text \<open>
  The matcher as the specification words it, to be compared with \<open>fallback\<close>: ``for
  each fallback in order: if every word in \<open>fallback.words\<close> appears in the utterance
  token set, return an NLUResult with that classification, confidence 1, and empty
  entities. Otherwise return not matched.''
\<close>

definition fallback_per_spec :: "nlu_result \<Rightarrow> fallback_entry list \<Rightarrow> error + nlu_result option" where
  "fallback_per_spec r fallbacks =
     (case utterance r of
        None \<Rightarrow> Inl TypeError
      | Some u \<Rightarrow>
          (let ws = split_on CHR '' '' (toLowerCase u) in
           Inr (map_option (matched_result r)
                  (List.find (\<lambda>f. list_all (\<lambda>w. w \<in> set ws) (fb_words f)) fallbacks))))"

subsection \<open>Action loop: is the expected item in the utterance?\<close>

text \<open>\<^verbatim>\<open>actions[action].loop.expected_item\<close>, destructured: reading a property of
  \<^verbatim>\<open>undefined\<close> and destructuring \<^verbatim>\<open>undefined\<close> throw.\<close>

definition loop_expected_item :: "skill_config \<Rightarrow> string option \<Rightarrow> error + expected_item" where
  "loop_expected_item cfg act =
     (case actions cfg of
        None \<Rightarrow> Inl TypeError
      | Some as \<Rightarrow>
          (case map_of as (tmpl_undefined act) of
             None \<Rightarrow> Inl TypeError
           | Some a \<Rightarrow>
               (case cfg_loop a of
                  None \<Rightarrow> Inl TypeError
                | Some None \<Rightarrow> Inl TypeError
                | Some (Some it) \<Rightarrow> Inr it)))"

text \<open>The local function \<^verbatim>\<open>resolveResolvers(resolver, intent)\<close>.\<close>

definition resolveResolvers ::
  "env \<Rightarrow> nlu \<Rightarrow> skill_config \<Rightarrow> string \<Rightarrow> string \<Rightarrow> error + resolver list" where
  "resolveResolvers E s cfg expectedItemName intent =
     (let resolversPath = join [cwd E, ''core/data'', brain_lang s, ''global-resolvers''];
          resolvedIntents =
            (if \<not> str_includes intent ''resolver.global''
             then (case cfg_resolvers cfg of
                     None \<Rightarrow> Inl TypeError
                   | Some rs \<Rightarrow> Inr (map_of rs expectedItemName))
             else (case readGlobalResolver E (join [resolversPath, expectedItemName @ ''.json'']) of
                     None \<Rightarrow> Inl ReadError
                   | Some d \<Rightarrow> Inr (Some d)))
      in case resolvedIntents of
           Inl e \<Rightarrow> Inl e
         | Inr None \<Rightarrow> Inl TypeError
         | Inr (Some d) \<Rightarrow>
             (case map_of (intents d) (after_last_dot intent) of
                None \<Rightarrow> Inl TypeError
              | Some v \<Rightarrow> Inr [\<lparr> resolver_name = expectedItemName, resolver_value = v \<rparr>]))"

text \<open>\<^verbatim>\<open>nlpObjs[expectedItemType].process(utterance)\<close>, of which the intent is kept.\<close>

definition resolver_intent :: "env \<Rightarrow> string \<Rightarrow> string \<Rightarrow> error + string option" where
  "resolver_intent E expectedItemType u =
     (if expectedItemType = ''global_resolver'' then Inr (globalResolvers_process E u)
      else if expectedItemType = ''skill_resolver'' then Inr (skillsResolvers_process E u)
      else Inl TypeError)"

text \<open>
  Lines 294 to 380 of \<^verbatim>\<open>handleActionLoop\<close>: the result object is rebuilt from the
  active context, the entities are extracted, the configuration is read, and the two flags
  \<^verbatim>\<open>hasMatchingEntity\<close> and \<^verbatim>\<open>hasMatchingResolver\<close> are computed. None of this is
  inside a \<^verbatim>\<open>try\<close>.
\<close>

definition loop_flags ::
  "env \<Rightarrow> nlu \<Rightarrow> string \<Rightarrow> skill_config \<Rightarrow> string \<Rightarrow> expected_item \<Rightarrow> (error + bool \<times> bool) \<times> nlu" where
  "loop_flags E s u cfg skillName it =
     (if item_type it = ''entity''
      then (Inr (filter (\<lambda>e. item_name it = entity e) (entities (nluResultObj s)) \<noteq> [], False), s)
      else if str_includes (item_type it) ''resolver''
      then (case resolver_intent E (item_type it) u of
              Inl e \<Rightarrow> (Inl e, s)
            | Inr intent \<Rightarrow>
                if truthy intent \<and>
                   (str_includes (tmpl_undefined intent) ''resolver.global'' \<or>
                    str_includes (tmpl_undefined intent) (''resolver.'' @ skillName))
                then (case resolveResolvers E s cfg (item_name it) (tmpl_undefined intent) of
                        Inl e \<Rightarrow> (Inl e, s)
                      | Inr rs \<Rightarrow>
                          (Inr (False, length rs > 0),
                           s\<lparr> nluResultObj := (nluResultObj s)\<lparr> resolvers := rs \<rparr> \<rparr>))
                else (Inr (False, False), s))
      else (Inr (False, False), s))"

text \<open>The result object that \<^verbatim>\<open>handleActionLoop\<close> builds from the active context
  (lines 303 to 314).\<close>

definition loop_result ::
  "active_context \<Rightarrow> string \<Rightarrow> string \<Rightarrow> string \<Rightarrow> nlu_result" where
  "loop_result c d path u =
     defaultNluResultObj
       \<lparr> slots := Some (ctx_slots c), utterance := Some u,
         configDataFilePath := Some path,
         classification :=
           \<lparr> domain = Some d, skill = Some (skillName_of (ctx_intent c)),
             action = actionName_of (ctx_intent c), confidence = Some 1 \<rparr> \<rparr>"

definition expected_items :: "env \<Rightarrow> nlu \<Rightarrow> string \<Rightarrow> (error + bool \<times> bool) \<times> nlu" where
  "expected_items E s u =
     (let skillName = skillName_of (ctx_intent (conv s))
      in case ctx_domain (conv s) of
           None \<Rightarrow> (Inl TypeError, s)
         | Some d \<Rightarrow>
             (let path = skill_config_path E s d skillName;
                  s1 = s\<lparr> nluResultObj := loop_result (conv s) d path u \<rparr>
              in case ner_extractEntities E s1 path of
                   Inl e \<Rightarrow> (Inl e, s1)
                 | Inr es \<Rightarrow>
                     (let s2 = s1\<lparr> nluResultObj := (nluResultObj s1)\<lparr> entities := es \<rparr> \<rparr>
                      in case readConfig E path of
                           None \<Rightarrow> (Inl ReadError, s2)
                         | Some cfg \<Rightarrow>
                             (case loop_expected_item cfg (action (classification (nluResultObj s2))) of
                                Inl e \<Rightarrow> (Inl e, s2)
                              | Inr it \<Rightarrow> loop_flags E s2 u cfg skillName it))))"

text \<open>What \<^verbatim>\<open>handleActionLoop\<close> does with the executor's reply (lines 393 to 420), the
  restart apart.\<close>

definition loop_reply :: "processed_data \<Rightarrow> nlu \<Rightarrow> reply completion \<times> nlu" where
  "loop_reply pd s =
     (if \<not> truthy (next_action pd) \<and> core_isInActionLoop pd = Some False
      then (Returned Null, s\<lparr> conv := cleanActiveContext (conv s) \<rparr>)
      else if core_isInActionLoop pd = Some False
      then (Returned (Processed pd),
            s\<lparr> conv := (conv s)
                 \<lparr> isInActionLoop := action_loop pd, actionName := next_action pd,
                   ctx_intent := tmpl_null (skill (pd_classification pd)) @ ''.'' @
                                 tmpl_undefined (next_action pd) \<rparr> \<rparr>)
      else (Returned (Processed pd), s))"

subsection \<open>Slot filling\<close>

text \<open>Lines 733 to 750 of \<^verbatim>\<open>slotFill\<close>: the slots are set when the first unfilled
  one is matched; the question of the next unfilled slot, if there is one then.\<close>

definition slot_question :: "ner_entity list \<Rightarrow> nlu \<Rightarrow> slot option \<times> nlu" where
  "slot_question es s =
     (case getNotFilledSlot (conv s) of
        None \<Rightarrow> (None, s)
      | Some notFilledSlot \<Rightarrow>
          if length es > 0 \<and> list_ex (\<lambda>e. entity e = expectedEntity notFilledSlot) es
          then (let s1 = s\<lparr> conv := setSlots es (conv s) \<rparr>
                in (getNotFilledSlot (conv s1), s1))
          else (None, s))"

text \<open>The result object with which the entities are extracted (lines 717 to 725), and
  the one given to the executor when all slots are filled (lines 755 to 769).\<close>

definition slotFill_query :: "string \<Rightarrow> string \<Rightarrow> string option \<Rightarrow> string \<Rightarrow> nlu_result" where
  "slotFill_query d skillName act u =
     defaultNluResultObj
       \<lparr> utterance := Some u,
         classification :=
           \<lparr> domain = Some d, skill = Some skillName, action = act,
             confidence = None \<rparr> \<rparr>"

definition slotFill_result :: "active_context \<Rightarrow> string \<Rightarrow> string \<Rightarrow> string \<Rightarrow> nlu_result" where
  "slotFill_result c d skillName path =
     defaultNluResultObj
       \<lparr> slots := Some (if truthy (nextAction c) then ctx_slots c else []),
         utterance := originalUtterance c,
         configDataFilePath := Some path,
         classification :=
           \<lparr> domain = Some d, skill = Some skillName, action = nextAction c,
             confidence = Some 1 \<rparr> \<rparr>"

definition slotFill :: "env \<Rightarrow> nlu \<Rightarrow> string \<Rightarrow> reply completion \<times> nlu" where
  "slotFill E s u =
     (if \<not> truthy (nextAction (conv s)) then (Returned Null, s)
      else
        (let skillName = skillName_of (ctx_intent (conv s));
             actionName = actionName_of (ctx_intent (conv s))
         in case ctx_domain (conv s) of
              None \<Rightarrow> (Thrown TypeError, s)
            | Some d \<Rightarrow>
                (let path = skill_config_path E s d skillName;
                     s1 = s\<lparr> nluResultObj := slotFill_query d skillName actionName u \<rparr>
                 in case ner_extractEntities E s1 path of
                      Inl e \<Rightarrow> (Thrown e, s1)
                    | Inr es \<Rightarrow>
                        (case slot_question es s1 of
                           (Some notFilledSlot, s2) \<Rightarrow>
                             (Returned EmptyObj,
                              emit [IsTyping False]
                                (talk [Question (pickedQuestion notFilledSlot)] False s2))
                         | (None, s2) \<Rightarrow>
                             if \<not> areSlotsAllFilled (conv s2)
                             then (Returned Null,
                                   (talk [Wernicke ''random_context_out_of_topic''] False s2)
                                     \<lparr> conv := cleanActiveContext (conv s2) \<rparr>)
                             else
                               (let r = slotFill_result (conv s2) d skillName path;
                                    s3 = executed r
                                           (s2\<lparr> nluResultObj := r,
                                                conv := cleanActiveContext (conv s2) \<rparr>)
                                in case brain_execute E r of
                                     Inl msg \<Rightarrow> (Thrown (ExecutorError msg), s3)
                                   | Inr pd \<Rightarrow> (Returned (Processed pd), s3))))))"

text \<open>What \<^verbatim>\<open>handleSlotFilling\<close> does with a non-null result of \<^verbatim>\<open>slotFill\<close>
  (lines 441 to 458).\<close>

definition slot_filled :: "env \<Rightarrow> reply \<Rightarrow> nlu \<Rightarrow> reply completion \<times> nlu" where
  "slot_filled E v s =
     (case v of
        Processed pd \<Rightarrow>
          if truthy (next_action pd)
          then (case pd_nextAction pd of
                  None \<Rightarrow> (Thrown TypeError, s)
                | Some lp \<Rightarrow>
                    (Returned v,
                     s\<lparr> conv := setActiveContext
                          (context_nextAction E (pd_configDataFilePath pd) (next_action pd))
                          (conv s)
                          \<lparr> ctx_name = None, ctx_lang = brain_lang s, ctx_slots = pd_slots pd,
                            isInActionLoop = lp, originalUtterance = pd_utterance pd,
                            ctx_configDataFilePath = pd_configDataFilePath pd,
                            actionName = next_action pd,
                            ctx_domain = domain (pd_classification pd),
                            ctx_intent = tmpl_null (skill (pd_classification pd)) @ ''.'' @
                                         tmpl_undefined (next_action pd),
                            ctx_entities = [], ctx_currentEntities = [],
                            nextAction = None \<rparr> \<rparr>))
          else (Returned v, s)
      | _ \<Rightarrow> (Returned v, s))"

definition routeSlotFilling :: "env \<Rightarrow> nlu \<Rightarrow> string \<Rightarrow> (error + bool) \<times> nlu" where
  "routeSlotFilling E s intent =
     (let sl = getMandatorySlots E intent; r = nluResultObj s
      in if length sl > 0
         then
           (let s1 = s\<lparr> conv := setActiveContext
                          (context_nextAction E (configDataFilePath r) (action (classification r)))
                          (conv s)
                          \<lparr> ctx_name = None, ctx_lang = brain_lang s, ctx_slots = sl,
                            isInActionLoop = False, originalUtterance = utterance r,
                            ctx_configDataFilePath = configDataFilePath r,
                            actionName = action (classification r),
                            ctx_domain = domain (classification r), ctx_intent = intent,
                            ctx_entities = entities r, ctx_currentEntities = [],
                            nextAction = None \<rparr> \<rparr>
            in case getNotFilledSlot (conv s1) of
                 None \<Rightarrow> (Inr False, s1)
               | Some notFilledSlot \<Rightarrow>
                   (case configDataFilePath r of
                      None \<Rightarrow> (Inl TypeError, s1)
                    | Some path \<Rightarrow>
                        (case readConfig E path of
                           None \<Rightarrow> (Inl ReadError, s1)
                         | Some cfg \<Rightarrow>
                             (case actions cfg of
                                None \<Rightarrow> (Inl TypeError, s1)
                              | Some as \<Rightarrow>
                                  (case map_of as (tmpl_undefined (action (classification r))) of
                                     None \<Rightarrow> (Inl TypeError, s1)
                                   | Some a \<Rightarrow>
                                       (case cfg_slots a of
                                          None \<Rightarrow> (Inl TypeError, s1)
                                        | Some cs \<Rightarrow>
                                            (case filter (\<lambda>c. slot_name c = slot_name notFilledSlot) cs of
                                               [] \<Rightarrow> (Inl TypeError, s1)
                                             | currentSlot # _ \<Rightarrow>
                                                 (Inr True,
                                                  emit [Suggest (suggestions currentSlot),
                                                        Talk (brain_lang s1)
                                                          [Question (pickedQuestion notFilledSlot)] False,
                                                        IsTyping False] s1))))))))
         else (Inr False, s))"

subsection \<open>The dispatcher\<close>

text \<open>
  The \<^verbatim>\<open>forEach\<close> over \<^verbatim>\<open>classifications\<close> (lines 516 to 527): \<open>domainOf\<close> is
  \<^verbatim>\<open>getIntentDomain(locale, _)\<close>, \<open>name\<close> the name of the active context, and the
  triple the variables \<^verbatim>\<open>score\<close>, \<^verbatim>\<open>intent\<close>, \<^verbatim>\<open>domain\<close>.
\<close>

fun repick ::
  "(string \<Rightarrow> string) \<Rightarrow> string option \<Rightarrow> (string \<times> real) list \<Rightarrow>
   real \<times> string \<times> string \<Rightarrow> real \<times> string \<times> string" where
  "repick domainOf name [] chosen = chosen"
| "repick domainOf name ((newIntent, newScore) # cs) chosen =
     repick domainOf name cs
       (if newScore > 0.6 \<and> name = Some (domainOf newIntent @ ''.'' @ skillName_of newIntent)
        then (newScore, newIntent, domainOf newIntent)
        else chosen)"


text \<open>Lines 505 to 541: the main classifier is asked, the classification is picked and
  the result object is rebuilt. The intent picked is returned with the state.\<close>

definition pick_classification :: "env \<Rightarrow> nlu \<Rightarrow> string \<Rightarrow> real \<times> string \<times> string" where
  "pick_classification E s u =
     (let result = mainNlp_process E u;
          top = (res_score result, res_intent result, res_domain result)
      in if hasActiveContext (conv s)
         then repick (getIntentDomain E (res_locale result)) (ctx_name (conv s))
                (classifications result) top
         else top)"

definition classify :: "env \<Rightarrow> nlu \<Rightarrow> string \<Rightarrow> string \<times> nlu" where
  "classify E s u =
     (case pick_classification E s u of
        (score, intent, dm) \<Rightarrow>
          (intent,
           s\<lparr> nluResultObj := defaultNluResultObj
                \<lparr> utterance := Some u, answers := res_answers (mainNlp_process E u),
                  classification :=
                    \<lparr> domain = Some dm, skill = Some (skillName_of intent),
                      action = actionName_of intent, confidence = Some score \<rparr> \<rparr> \<rparr>))"

text \<open>
  A stage of \<^verbatim>\<open>process\<close> either ends the call (\<open>Inl\<close>) or hands the state on
  (\<open>Inr\<close>). Lines 560 to 588: the fallbacks, when the intent is \<^verbatim>\<open>None\<close>.
\<close>

definition unknown_intent :: "env \<Rightarrow> nlu \<Rightarrow> int \<Rightarrow> reply completion \<times> nlu" where
  "unknown_intent E s processingTimeStart =
     (let s1 = (if \<not> brain_isMuted s
                then emit [IsTyping False] (talk [Wernicke ''random_unknown_intents''] True s)
                else s);
          (processingTimeEnd, s2) = date_now E s1
      in (Returned (NotFound (processingTimeEnd - processingTimeStart) ''Intent not found''), s2))"

definition fallback_stage ::
  "env \<Rightarrow> nlu \<Rightarrow> string \<Rightarrow> string \<Rightarrow> int \<Rightarrow> (reply completion \<times> nlu) + nlu" where
  "fallback_stage E s intent loc processingTimeStart =
     (if intent = ''None''
      then (case langs_fallbacks E (getLongCode E loc) of
              None \<Rightarrow> Inl (Stuck, s)
            | Some fallbacks \<Rightarrow>
                (case fallback (nluResultObj s) fallbacks of
                   Inl e \<Rightarrow> Inl (Stuck, s)
                 | Inr None \<Rightarrow> Inl (unknown_intent E s processingTimeStart)
                 | Inr (Some r) \<Rightarrow> Inr (s\<lparr> nluResultObj := r \<rparr>)))
      else Inr s)"

text \<open>Lines 595 to 618: the path of the skill's configuration, and the entities. An
  exception of the extraction is caught: the entities stay as they were.\<close>

definition error_code :: "error \<Rightarrow> string" where
  "error_code e = (case e of NerError c \<Rightarrow> c | _ \<Rightarrow> ''undefined'')"

definition entities_stage :: "env \<Rightarrow> nlu \<Rightarrow> (reply completion \<times> nlu) + nlu" where
  "entities_stage E s =
     (case (domain (classification (nluResultObj s)), skill (classification (nluResultObj s))) of
        (Some d, Some sk) \<Rightarrow>
          (let path = skill_config_path E s d sk;
               s1 = s\<lparr> nluResultObj := (nluResultObj s)\<lparr> configDataFilePath := Some path \<rparr> \<rparr>
           in case ner_extractEntities E s1 path of
                Inr es \<Rightarrow> Inr (s1\<lparr> nluResultObj := (nluResultObj s1)\<lparr> entities := es \<rparr> \<rparr>)
              | Inl e \<Rightarrow>
                  Inr (if \<not> brain_isMuted s1 then talk [WernickeCode (error_code e)] False s1
                       else s1))
      | _ \<Rightarrow> Inl (Stuck, s))"

text \<open>Lines 505 to 623, from the classification to the decision of
  \<^verbatim>\<open>routeSlotFilling\<close>; the intent is handed on with the state.\<close>

definition understand ::
  "env \<Rightarrow> nlu \<Rightarrow> string \<Rightarrow> int \<Rightarrow> (reply completion \<times> nlu) + (string \<times> nlu)" where
  "understand E s u processingTimeStart =
     (case classify E s u of
        (intent, s1) \<Rightarrow>
          (let loc = res_locale (mainNlp_process E u)
           in if loc \<notin> set (getShortCodes E)
              then Inl (Returned EmptyObj,
                        emit [IsTyping False]
                          (talk [Wernicke ''random_language_not_supported''] True s1))
              else if brain_lang s1 \<noteq> loc
              then (case switchLanguage s1 u loc of (v, s2) \<Rightarrow> Inl (Returned v, s2))
              else (case fallback_stage E s1 intent loc processingTimeStart of
                      Inl fin \<Rightarrow> Inl fin
                    | Inr s2 \<Rightarrow>
                        (case entities_stage E s2 of
                           Inl fin \<Rightarrow> Inl fin
                         | Inr s3 \<Rightarrow>
                             (case routeSlotFilling E s3 intent of
                                (Inl e, s4) \<Rightarrow> Inl (Stuck, s4)
                              | (Inr True, s4) \<Rightarrow> Inl (Returned EmptyObj, s4)
                              | (Inr False, s4) \<Rightarrow> Inr (intent, s4))))))"

text \<open>Lines 637 to 656: the context of the skill is activated, and its entities are
  passed to the result object.\<close>

definition activate_context :: "env \<Rightarrow> nlu \<Rightarrow> string \<Rightarrow> nlu" where
  "activate_context E s intent =
     (let r = nluResultObj s;
          newContextName = tmpl_null (domain (classification r)) @ ''.'' @ skillName_of intent;
          c = (if ctx_name (conv s) \<noteq> Some newContextName then cleanActiveContext (conv s)
               else conv s);
          c1 = setActiveContext
                 (context_nextAction E (configDataFilePath r) (action (classification r))) c
                 \<lparr> ctx_name = None, ctx_lang = brain_lang s, ctx_slots = [],
                   isInActionLoop = False, originalUtterance = utterance r,
                   ctx_configDataFilePath = configDataFilePath r,
                   actionName = action (classification r),
                   ctx_domain = domain (classification r), ctx_intent = intent,
                   ctx_entities = entities r, ctx_currentEntities = [], nextAction = None \<rparr>
      in s\<lparr> conv := c1,
            nluResultObj := r\<lparr> currentEntities := ctx_currentEntities c1,
                              entities := ctx_entities c1 \<rparr> \<rparr>)"

text \<open>Lines 662 to 675: the context of the next action that the executor queued.\<close>

definition queue_next_action :: "env \<Rightarrow> processed_data \<Rightarrow> nlu \<Rightarrow> nlu" where
  "queue_next_action E pd s =
     (case pd_nextAction pd of
        None \<Rightarrow> s
      | Some lp \<Rightarrow>
          s\<lparr> conv := setActiveContext
               (context_nextAction E (pd_configDataFilePath pd) (next_action pd))
               (cleanActiveContext (conv s))
               \<lparr> ctx_name = None, ctx_lang = brain_lang s, ctx_slots = [],
                 isInActionLoop = lp, originalUtterance = pd_utterance pd,
                 ctx_configDataFilePath = pd_configDataFilePath pd,
                 actionName = next_action pd, ctx_domain = domain (pd_classification pd),
                 ctx_intent = tmpl_null (skill (pd_classification pd)) @ ''.'' @
                              tmpl_undefined (next_action pd),
                 ctx_entities = [], ctx_currentEntities = [], nextAction = None \<rparr> \<rparr>)"

text \<open>Lines 637 to 695, the normal path: the executor runs on the result object, and its
  reply is returned between the two times.\<close>

definition execute_skill :: "env \<Rightarrow> nlu \<Rightarrow> string \<Rightarrow> int \<Rightarrow> reply completion \<times> nlu" where
  "execute_skill E s intent processingTimeStart =
     (let s1 = activate_context E s intent;
          s2 = executed (nluResultObj s1) s1
      in case brain_execute E (nluResultObj s1) of
           Inl msg \<Rightarrow>
             (Thrown (ExecutorError msg),
              if \<not> brain_isMuted s2 then emit [IsTyping False] s2 else s2)
         | Inr processedData \<Rightarrow>
             (let s3 = queue_next_action E processedData s2;
                  (processingTimeEnd, s4) = date_now E s3;
                  processingTime = processingTimeEnd - processingTimeStart
              in (Returned (Timed processingTime processedData
                              (map_option (\<lambda>executionTime. processingTime - executionTime)
                                 (executionTime processedData))), s4)))"

text \<open>How the three callers use the outcome of a nested call.\<close>

fun then_null :: "reply completion \<times> nlu \<Rightarrow> reply completion \<times> nlu" where
  "then_null (Returned v, s) = (Returned Null, s)"
| "then_null (Thrown e, s) = (Thrown e, s)"
| "then_null (Stuck, s) = (Stuck, s)"

fun caught_null :: "reply completion \<times> nlu \<Rightarrow> reply completion \<times> nlu" where
  "caught_null (Returned v, s) = (Returned Null, s)"
| "caught_null (Thrown e, s) = (Returned Null, s)"
| "caught_null (Stuck, s) = (Stuck, s)"

fun uncaught :: "reply completion \<times> nlu \<Rightarrow> reply completion \<times> nlu" where
  "uncaught (Returned v, s) = (Returned v, s)"
| "uncaught (Thrown e, s) = (Stuck, s)"
| "uncaught (Stuck, s) = (Stuck, s)"

fun caught_reject :: "reply completion \<times> nlu \<Rightarrow> reply completion \<times> nlu" where
  "caught_reject (Returned v, s) = (Returned v, s)"
| "caught_reject (Thrown e, s) = (Thrown EmptyRejection, s)"
| "caught_reject (Stuck, s) = (Stuck, s)"

text \<open>The check of the models at the head of \<^verbatim>\<open>process\<close> (lines 473 to 483).\<close>

definition models_missing :: "nlu \<Rightarrow> reply completion \<times> nlu" where
  "models_missing s =
     (Thrown NlpModelMissing,
      if \<not> brain_isMuted s
      then emit [IsTyping False] (talk [Wernicke ''random_errors''] False s)
      else s)"

text \<open>
  \<^verbatim>\<open>process\<close>, \<^verbatim>\<open>handleActionLoop\<close> and \<^verbatim>\<open>handleSlotFilling\<close> call one another. The
  first argument bounds the depth of the nesting; \<open>None\<close> says that the bound was
  reached (or that the executor asked for a restart of a context that has no original
  utterance, which the model does not follow).
\<close>

fun process :: "nat \<Rightarrow> env \<Rightarrow> nlu \<Rightarrow> string \<Rightarrow> (reply completion \<times> nlu) option"
and handleActionLoop :: "nat \<Rightarrow> env \<Rightarrow> nlu \<Rightarrow> string \<Rightarrow> (reply completion \<times> nlu) option"
and handleSlotFilling :: "nat \<Rightarrow> env \<Rightarrow> nlu \<Rightarrow> string \<Rightarrow> (reply completion \<times> nlu) option"
where
  "process 0 E s u = None"
| "process (Suc n) E s u =
     (case date_now E s of
        (processingTimeStart, s0) \<Rightarrow>
          if \<not> hasNlpModels s0 then Some (models_missing s0)
          else
            (let s1 = mergeSpacyEntities E s0 u
             in if hasActiveContext (conv s1) \<and> isInActionLoop (conv s1)
                then map_option uncaught (handleActionLoop n E s1 u)
                else if hasActiveContext (conv s1) \<and> length (ctx_slots (conv s1)) > 0
                then map_option caught_reject (handleSlotFilling n E s1 u)
                else (case understand E s1 u processingTimeStart of
                        Inl fin \<Rightarrow> Some fin
                      | Inr (intent, s2) \<Rightarrow>
                          if hasActiveContext (conv s2) \<and> length (ctx_slots (conv s2)) > 0
                          then map_option caught_reject (handleSlotFilling n E s2 u)
                          else Some (execute_skill E s2 intent processingTimeStart))))"
| "handleActionLoop 0 E s u = None"
| "handleActionLoop (Suc n) E s u =
     (case expected_items E s u of
        (Inl e, s1) \<Rightarrow> Some (Thrown e, s1)
      | (Inr (hasMatchingEntity, hasMatchingResolver), s1) \<Rightarrow>
          if \<not> hasMatchingEntity \<and> \<not> hasMatchingResolver
          then map_option then_null
                 (process n E
                    ((talk [Wernicke ''random_context_out_of_topic''] False s1)
                       \<lparr> conv := cleanActiveContext (conv s1) \<rparr>) u)
          else
            (let s2 = executed (nluResultObj s1) s1
             in case brain_execute E (nluResultObj s1) of
                  Inl msg \<Rightarrow> Some (Returned Null, s2)
                | Inr processedData \<Rightarrow>
                    if core_restart processedData
                    then (case originalUtterance (conv s2) of
                            None \<Rightarrow> None
                          | Some ou \<Rightarrow>
                              map_option caught_null
                                (process n E (s2\<lparr> conv := cleanActiveContext (conv s2) \<rparr>) ou))
                    else Some (loop_reply processedData s2)))"
| "handleSlotFilling 0 E s u = None"
| "handleSlotFilling (Suc n) E s u =
     (case slotFill E s u of
        (Returned Null, s1) \<Rightarrow> map_option then_null (process n E s1 u)
      | (Returned v, s1) \<Rightarrow> Some (slot_filled E v s1)
      | (Thrown e, s1) \<Rightarrow> Some (Thrown e, s1)
      | (Stuck, s1) \<Rightarrow> Some (Stuck, s1))"

text \<open>Is the outcome the reply of the normal path, between the two times?\<close>

fun is_Timed :: "reply completion \<times> nlu \<Rightarrow> bool" where
  "is_Timed (Returned (Timed a b c), s) = True"
| "is_Timed x = False"

subsection \<open>Example inputs\<close>

text \<open>An environment, a loaded instance and three contexts, on which the theorems below
  are instantiated.\<close>

definition reply0 :: "nlu_result \<Rightarrow> processed_data" where
  "reply0 r =
     \<lparr> executionTime = Some 5, pd_classification = classification r, next_action = None,
       action_loop = False, pd_nextAction = None, core_restart = False,
       core_isInActionLoop = None, pd_utterance = utterance r,
       pd_configDataFilePath = configDataFilePath r, pd_slots = [] \<rparr>"

definition delete_result :: nlp_result where
  "delete_result =
     \<lparr> res_locale = ''en'', res_answers = [],
       classifications = [(''todolist.delete'', 0.72), (''list.delete'', 0.68)],
       res_score = 0.72, res_intent = ''todolist.delete'', res_domain = ''productivity'' \<rparr>"

definition none_result :: nlp_result where
  "none_result =
     \<lparr> res_locale = ''en'', res_answers = [], classifications = [(''None'', 1)],
       res_score = 1, res_intent = ''None'', res_domain = ''default'' \<rparr>"

definition guess_config :: skill_config where
  "guess_config =
     \<lparr> actions = Some [(''play'', \<lparr> cfg_slots = None,
                                     cfg_loop = Some (Some \<lparr> item_name = ''number'',
                                                             item_type = ''entity'' \<rparr>) \<rparr>)],
       cfg_resolvers = None \<rparr>"

definition E0 :: env where
  "E0 =
     \<lparr> getSpacyEntities = (\<lambda>u. []),
       mainNlp_process =
         (\<lambda>u. if u = ''delete it'' \<or> u = ''crash'' then delete_result else none_result),
       getIntentDomain =
         (\<lambda>loc i. if i = ''list.delete'' then ''shopping''
                  else if i = ''todolist.delete'' then ''productivity'' else ''default''),
       getMandatorySlots = (\<lambda>i. []),
       extractEntities =
         (\<lambda>lang path r.
            if utterance r = Some ''hello leon''
            then Inr [\<lparr> entity = ''person'', sourceText = ''leon'' \<rparr>]
            else if utterance r = Some ''boom'' then Inl (NerError ''random_ner_error'')
            else Inr []),
       globalResolvers_process = (\<lambda>u. None),
       skillsResolvers_process = (\<lambda>u. None),
       readConfig =
         (\<lambda>path. if path = ''/leon/skills/games/guess/config/en.json'' then Some guess_config
                  else None),
       readGlobalResolver = (\<lambda>path. None),
       brain_execute =
         (\<lambda>r. if utterance r = Some ''crash'' then Inl ''skill failed'' else Inr (reply0 r)),
       getShortCodes = [''en'', ''fr''],
       getLongCode = (\<lambda>l. if l = ''fr'' then ''fr-FR'' else ''en-US''),
       langs_fallbacks =
         (\<lambda>l. if l = ''en-US''
              then Some [\<lparr> fb_words = [''hello'', ''leon''], fb_domain = ''greetings'',
                            fb_skill = ''hello'', fb_action = ''run'' \<rparr>]
              else Some []),
       clock = (\<lambda>n. 1000 + 20 * int n),
       cwd = ''/leon'',
       spawn_pid = (\<lambda>cmd. 4343),
       tcp_server_bin_path = ''/leon/bin/tcp_server'',
       context_nextAction = (\<lambda>path a. None) \<rparr>"

definition ready :: nlu where
  "ready =
     (new_NLU ''en'' False 42)
       \<lparr> globalResolversNlp := [''settings''], skillsResolversNlp := [''settings''],
         mainNlp := [''settings''], ner := True \<rparr>"


definition guess_context :: active_context where
  "guess_context =
     defaultActiveContext
       \<lparr> ctx_name := Some ''games.guess'', ctx_lang := ''en'', isInActionLoop := True,
         originalUtterance := Some ''let us play'', actionName := Some ''play'',
         ctx_domain := Some ''games'', ctx_intent := ''guess.play'' \<rparr>"

definition item_slot :: slot where
  "item_slot =
     \<lparr> slot_name = ''item'', expectedEntity = ''product'',
       pickedQuestion = ''What should I add?'', suggestions = [], isFilled = True,
       slot_value = Some \<lparr> entity = ''product'', sourceText = ''milk'' \<rparr> \<rparr>"

definition filled_context :: active_context where
  "filled_context =
     defaultActiveContext
       \<lparr> ctx_name := Some ''shopping.list'', ctx_lang := ''en'',
         ctx_slots := [(''item'', item_slot)],
         originalUtterance := Some ''add to my shopping list'',
         actionName := Some ''ask'', ctx_domain := Some ''shopping'',
         ctx_intent := ''list.ask'' \<rparr>"

section \<open>Properties\<close>

lemma push_present_eq:
  "push_present ws xs tmpWords = tmpWords @ filter (\<lambda>w. w \<in> set ws) xs"
  by (induction xs arbitrary: tmpWords) auto

text \<open>An entry that matches has all its words in the utterance, whatever was pushed
  before; and the first entry of a table matches when all its words are there.\<close>

lemma fallback_loop_words_present:
  assumes "fallback_loop ws fbs tmp r = Some r'" and "set tmp \<subseteq> set ws"
  shows "\<exists>f \<in> set fbs. set (fb_words f) \<subseteq> set ws \<and> r' = matched_result r f"
  using assms
proof (induction fbs arbitrary: tmp)
  case Nil
  then show ?case by simp
next
  case (Cons f fbs)
  let ?tmp' = "push_present ws (fb_words f) tmp"
  have sub: "set ?tmp' \<subseteq> set ws" using Cons.prems(2) by (auto simp: push_present_eq)
  show ?case
  proof (cases "?tmp' = fb_words f")
    case True
    then have "r' = matched_result r f" using Cons.prems(1) by (simp add: matched_result_def)
    moreover have "set (fb_words f) \<subseteq> set ws" using sub True by simp
    ultimately show ?thesis by auto
  next
    case False
    then have "fallback_loop ws fbs ?tmp' r = Some r'" using Cons.prems(1) by simp
    from Cons.IH [OF this sub] show ?thesis by auto
  qed
qed

lemma fallback_first_entry:
  assumes "utterance r = Some u"
    and "list_all (\<lambda>w. w \<in> set (split_on CHR '' '' (toLowerCase u))) (fb_words f)"
  shows "fallback r (f # fbs) = Inr (Some (matched_result r f))"
proof -
  have "filter (\<lambda>w. w \<in> set (split_on CHR '' '' (toLowerCase u))) (fb_words f) = fb_words f"
    using assms(2) by (simp add: list_all_iff)
  then show ?thesis using assms(1)
    by (simp add: fallback_def Let_def push_present_eq matched_result_def)
qed

text \<open>
  C2. The matcher does not return the first entry all of whose words are in the utterance:
  with the table \<open>[{hello, leon}, {bob}]\<close> and the utterance \<open>hello bob\<close> the second entry
  has all its words present, the specification's matcher returns it, and \<^verbatim>\<open>fallback\<close>
  returns \<^verbatim>\<open>false\<close>, because \<open>hello\<close>, pushed while the first entry was examined, is
  still in \<^verbatim>\<open>tmpWords\<close>.
\<close>

theorem fallback_misses_later_entry:
  "fallback (defaultNluResultObj\<lparr> utterance := Some ''hello bob'' \<rparr>)
     [\<lparr> fb_words = [''hello'', ''leon''], fb_domain = ''greetings'', fb_skill = ''hello'',
        fb_action = ''run'' \<rparr>,
      \<lparr> fb_words = [''bob''], fb_domain = ''people'', fb_skill = ''bob'',
        fb_action = ''run'' \<rparr>] = Inr None \<and>
   fallback_per_spec (defaultNluResultObj\<lparr> utterance := Some ''hello bob'' \<rparr>)
     [\<lparr> fb_words = [''hello'', ''leon''], fb_domain = ''greetings'', fb_skill = ''hello'',
        fb_action = ''run'' \<rparr>,
      \<lparr> fb_words = [''bob''], fb_domain = ''people'', fb_skill = ''bob'',
        fb_action = ''run'' \<rparr>] =
     Inr (Some (defaultNluResultObj
        \<lparr> utterance := Some ''hello bob'',
          classification := \<lparr> domain = Some ''people'', skill = Some ''bob'',
                              action = Some ''run'', confidence = Some 1 \<rparr> \<rparr>))"
  by (simp add: fallback_def fallback_per_spec_def matched_result_def toLowerCase_def
      lower_char_def defaultNluResultObj_def)

subsection \<open>Readiness\<close>

lemma loadGlobalResolversModel_fields:
  "globalResolversNlp (snd (loadGlobalResolversModel g s)) =
     (case g of FileMissing \<Rightarrow> globalResolversNlp s | SetupFailed m \<Rightarrow> globalResolversNlp s
      | out \<Rightarrow> assigned_keys out)"
  "skillsResolversNlp (snd (loadGlobalResolversModel g s)) = skillsResolversNlp s"
  "mainNlp (snd (loadGlobalResolversModel g s)) = mainNlp s"
  by (cases g; simp add: load_failure_def emit_def talk_def)+

lemma loadSkillsResolversModel_fields:
  "skillsResolversNlp (snd (loadSkillsResolversModel k s)) =
     (case k of FileMissing \<Rightarrow> skillsResolversNlp s | SetupFailed m \<Rightarrow> skillsResolversNlp s
      | out \<Rightarrow> assigned_keys out)"
  "globalResolversNlp (snd (loadSkillsResolversModel k s)) = globalResolversNlp s"
  "mainNlp (snd (loadSkillsResolversModel k s)) = mainNlp s"
  by (cases k; simp add: load_failure_def emit_def talk_def)+

lemma loadMainModel_fields:
  "mainNlp (snd (loadMainModel m s)) =
     (case m of FileMissing \<Rightarrow> mainNlp s | SetupFailed e \<Rightarrow> mainNlp s
      | out \<Rightarrow> assigned_keys out)"
  "globalResolversNlp (snd (loadMainModel m s)) = globalResolversNlp s"
  "skillsResolversNlp (snd (loadMainModel m s)) = skillsResolversNlp s"
  by (cases m; simp add: load_failure_def emit_def talk_def)+

lemma snd_loadNLPModels:
  "snd (loadNLPModels g k m s) =
     snd (loadMainModel m (snd (loadSkillsResolversModel k (snd (loadGlobalResolversModel g s)))))"
  by (simp add: loadNLPModels_def split: prod.splits)

text \<open>
  C4, as the code has it. After \<^verbatim>\<open>loadNLPModels\<close> on a new instance, \<^verbatim>\<open>hasNlpModels\<close>
  is true exactly when each of the three loaders has stored a non-empty object in its
  field. A loader stores the container's \<^verbatim>\<open>nlp\<close> object before it awaits \<^verbatim>\<open>load\<close>,
  so this is so whether the load then succeeded, failed or is still awaited; it is not so
  when a model file is missing or the container could not be set up.
\<close>

theorem hasNlpModels_iff_objects_assigned:
  "hasNlpModels (snd (loadNLPModels g k m (new_NLU lang muted pid))) \<longleftrightarrow>
     assigned_keys g \<noteq> [] \<and> assigned_keys k \<noteq> [] \<and> assigned_keys m \<noteq> []"
  unfolding hasNlpModels_def snd_loadNLPModels loadMainModel_fields
    loadSkillsResolversModel_fields loadGlobalResolversModel_fields
  by (cases g; cases k; cases m; simp add: new_NLU_def)

theorem hasNlpModels_iff_objects_assigned_witness:
  "hasNlpModels (snd (loadNLPModels (Loaded [''settings'']) (Loaded [''settings''])
     (Loaded [''settings'']) (new_NLU ''en'' False 1))) \<and>
   \<not> hasNlpModels (snd (loadNLPModels (Loaded [''settings'']) FileMissing
     (Loaded [''settings'']) (new_NLU ''en'' False 1)))"
  using hasNlpModels_iff_objects_assigned [of "Loaded [''settings'']" "Loaded [''settings'']"
      "Loaded [''settings'']" "''en''" False 1]
    hasNlpModels_iff_objects_assigned [of "Loaded [''settings'']" FileMissing
      "Loaded [''settings'']" "''en''" False 1]
  by simp

text \<open>
  C4, as the claim has it, fails: the model files exist, the main model cannot be loaded
  (\<^verbatim>\<open>load\<close> throws, the promise of \<^verbatim>\<open>loadNLPModels\<close> is rejected), and
  \<^verbatim>\<open>hasNlpModels\<close> is true.
\<close>

theorem hasNlpModels_true_after_failed_load:
  "hasNlpModels (snd (loadNLPModels (Loaded [''settings'']) (Loaded [''settings''])
     (LoadFailed [''settings''] ''invalid model'') (new_NLU ''en'' False 1))) \<and>
   fst (loadNLPModels (Loaded [''settings'']) (Loaded [''settings''])
     (LoadFailed [''settings''] ''invalid model'') (new_NLU ''en'' False 1)) =
   Thrown (LoadError ''invalid model'')"
  by (simp add: hasNlpModels_def loadNLPModels_def new_NLU_def load_failure_def emit_def
      talk_def promise_all_def)

subsection \<open>Language switch\<close>

text \<open>
  C8, as the code has it. \<^verbatim>\<open>switchLanguage\<close> sets the current language to the new
  locale first and speaks the announcement afterwards, so that the announcement is made
  while the language is already the new one; it then asks for the process tree of the
  tokenization service to be killed and returns \<^verbatim>\<open>{}\<close>. The new child is spawned with
  the new locale, and the client reconnected, in the callback of the kill.
\<close>

theorem switchLanguage_sets_language_then_announces:
  "switchLanguage s u loc =
     (EmptyObj, s\<lparr> brain_lang := loc,
                  trace := trace s @ [Talk loc [Wernicke ''random_language_switch''] True,
                                      Kill (tcpServerProcess s)] \<rparr>) \<and>
   switchLanguage_killed E s u loc =
     s\<lparr> tcpServerProcess := spawn_pid E (tcp_server_bin_path E @ '' '' @ loc),
        trace := trace s @ [Spawn (tcp_server_bin_path E @ '' '' @ loc), Connect,
                            OnConnected u] \<rparr>"
  by (simp add: switchLanguage_def switchLanguage_killed_def talk_def emit_def Let_def)

theorem switchLanguage_sets_language_then_announces_witness:
  "switchLanguage (new_NLU ''en-US'' False 42) ''bonjour'' ''fr-FR'' =
     (EmptyObj, (new_NLU ''en-US'' False 42)
        \<lparr> brain_lang := ''fr-FR'',
          trace := [Talk ''fr-FR'' [Wernicke ''random_language_switch''] True, Kill 42] \<rparr>)"
  using switchLanguage_sets_language_then_announces
    [of "new_NLU ''en-US'' False 42" "''bonjour''" "''fr-FR''"]
  by (simp add: new_NLU_def)

text \<open>
  C8, as the claim has it, fails: when the announcement is spoken the current language is
  no longer \<open>en-US\<close>, and when \<^verbatim>\<open>switchLanguage\<close> returns nothing has been spawned.
\<close>

theorem switchLanguage_language_set_before_talk:
  "trace (snd (switchLanguage (new_NLU ''en-US'' False 42) ''bonjour'' ''fr-FR'')) =
     [Talk ''fr-FR'' [Wernicke ''random_language_switch''] True, Kill 42]"
  by (simp add: switchLanguage_def talk_def emit_def new_NLU_def)

subsection \<open>Context-biased choice of the classification\<close>








subsection \<open>The example inputs, field by field\<close>

lemma E0_simps:
  "getSpacyEntities E0 = (\<lambda>u. [])"
  "mainNlp_process E0 u = (if u = ''delete it'' \<or> u = ''crash'' then delete_result else none_result)"
  "getIntentDomain E0 loc i = (if i = ''list.delete'' then ''shopping''
                  else if i = ''todolist.delete'' then ''productivity'' else ''default'')"
  "getMandatorySlots E0 i = []"
  "extractEntities E0 lang path r = (if utterance r = Some ''hello leon''
            then Inr [\<lparr> entity = ''person'', sourceText = ''leon'' \<rparr>]
            else if utterance r = Some ''boom'' then Inl (NerError ''random_ner_error'')
            else Inr [])"
  "globalResolvers_process E0 u = None"
  "skillsResolvers_process E0 u = None"
  "readConfig E0 path = (if path = ''/leon/skills/games/guess/config/en.json'' then Some guess_config
                  else None)"
  "readGlobalResolver E0 path = None"
  "brain_execute E0 r = (if utterance r = Some ''crash'' then Inl ''skill failed'' else Inr (reply0 r))"
  "getShortCodes E0 = [''en'', ''fr'']"
  "getLongCode E0 l = (if l = ''fr'' then ''fr-FR'' else ''en-US'')"
  "langs_fallbacks E0 l = (if l = ''en-US''
              then Some [\<lparr> fb_words = [''hello'', ''leon''], fb_domain = ''greetings'',
                            fb_skill = ''hello'', fb_action = ''run'' \<rparr>]
              else Some [])"
  "clock E0 n = 1000 + 20 * int n"
  "cwd E0 = ''/leon''"
  "spawn_pid E0 cmd = 4343"
  "tcp_server_bin_path E0 = ''/leon/bin/tcp_server''"
  "context_nextAction E0 p a = None"
  by (simp_all add: E0_def)

lemma ready_simps:
  "globalResolversNlp ready = [''settings'']"
  "skillsResolversNlp ready = [''settings'']"
  "mainNlp ready = [''settings'']"
  "ner ready = True"
  "conv ready = defaultActiveContext"
  "nluResultObj ready = defaultNluResultObj"
  "brain_lang ready = ''en''"
  "brain_isMuted ready = False"
  "tcpServerProcess ready = 42"
  "ticks ready = 0"
  "trace ready = []"
  by (simp_all add: ready_def new_NLU_def)

lemma filled_context_simps:
  "ctx_name filled_context = Some ''shopping.list''"
  "ctx_slots filled_context = [(''item'', item_slot)]"
  "isInActionLoop filled_context = False"
  "originalUtterance filled_context = Some ''add to my shopping list''"
  "ctx_domain filled_context = Some ''shopping''"
  "ctx_intent filled_context = ''list.ask''"
  "nextAction filled_context = None"
  "isFilled item_slot = True"
  by (simp_all add: filled_context_def defaultActiveContext_def item_slot_def)


subsection \<open>Slot filling\<close>

lemma getNotFilledSlot_None: "getNotFilledSlot c = None \<longleftrightarrow> areSlotsAllFilled c"
  by (auto simp: getNotFilledSlot_def areSlotsAllFilled_def find_None_iff list_all_iff)

lemma slot_question_nluResultObj:
  "slot_question es (s\<lparr> nluResultObj := q \<rparr>) =
     (fst (slot_question es s), (snd (slot_question es s))\<lparr> nluResultObj := q \<rparr>)"
  by (simp add: slot_question_def Let_def split: option.splits)

lemma slot_question_filled:
  assumes "areSlotsAllFilled (conv (snd (slot_question es s)))"
  shows "fst (slot_question es s) = None"
proof (cases "getNotFilledSlot (conv s)")
  case None
  then show ?thesis by (simp add: slot_question_def)
next
  case (Some nf)
  show ?thesis
  proof (cases "length es > 0 \<and> list_ex (\<lambda>e. entity e = expectedEntity nf) es")
    case True
    then have "slot_question es s =
        (getNotFilledSlot (setSlots es (conv s)), s\<lparr> conv := setSlots es (conv s) \<rparr>)"
      using Some by (simp add: slot_question_def Let_def)
    then show ?thesis using assms getNotFilledSlot_None [of "setSlots es (conv s)"] by simp
  next
    case False
    then show ?thesis using Some by (auto simp: slot_question_def)
  qed
qed

lemma slot_question_keeps:
  "originalUtterance (conv (snd (slot_question es s))) = originalUtterance (conv s)"
  "nextAction (conv (snd (slot_question es s))) = nextAction (conv s)"
  "trace (snd (slot_question es s)) = trace s"
  by (simp_all add: slot_question_def Let_def setSlots_def split: option.splits)

lemma slot_question_overwritten:
  "(snd (slot_question es s))\<lparr> nluResultObj := r, conv := c \<rparr> = s\<lparr> nluResultObj := r, conv := c \<rparr>"
  by (simp add: slot_question_def Let_def split: option.splits)

text \<open>
  C5, as the code has it. When the active context has a next action, the entities are
  extracted without an exception and all slots are filled once the entities of the utterance
  are set, \<^verbatim>\<open>slotFill\<close> builds a result object with the original utterance of the
  context, its next action as the action and confidence 1, clears the active context, gives
  the object to the executor and returns what the executor returns (or throws what it
  throws); the run of the executor is the one thing recorded, and the one instant that
  passes.
\<close>

theorem slotFill_all_slots_filled:
  assumes na: "truthy (nextAction (conv s))"
    and dom: "ctx_domain (conv s) = Some d"
    and sk: "sk = skillName_of (ctx_intent (conv s))"
    and path: "path = skill_config_path E s d sk"
    and ents: "ner_extractEntities E
                 (s\<lparr> nluResultObj := slotFill_query d sk (actionName_of (ctx_intent (conv s))) u \<rparr>)
                 path = Inr es"
    and filled: "areSlotsAllFilled (conv (snd (slot_question es s)))"
    and r: "r = slotFill_result (conv (snd (slot_question es s))) d sk path"
  shows "utterance r = originalUtterance (conv s) \<and>
         action (classification r) = nextAction (conv s) \<and>
         confidence (classification r) = Some 1 \<and>
         slotFill E s u =
           (case brain_execute E r of
              Inl msg \<Rightarrow> Thrown (ExecutorError msg)
            | Inr pd \<Rightarrow> Returned (Processed pd),
            s\<lparr> nluResultObj := r, conv := defaultActiveContext,
               ticks := Suc (ticks s), trace := trace s @ [Execute r] \<rparr>)"
proof -
  let ?q = "slotFill_query d sk (actionName_of (ctx_intent (conv s))) u"
  have r_fields: "utterance r = originalUtterance (conv s)"
    "action (classification r) = nextAction (conv s)"
    "confidence (classification r) = Some 1"
    by (simp_all add: r slotFill_result_def slot_question_keeps)
  have p1: "skill_config_path E s d sk = path" by (simp add: path)
  have sq: "slot_question es (s\<lparr> nluResultObj := ?q \<rparr>) =
      (None, (snd (slot_question es s))\<lparr> nluResultObj := ?q \<rparr>)"
    using slot_question_filled [OF filled] by (simp add: slot_question_nluResultObj)
  have st: "executed r ((snd (slot_question es s))\<lparr> nluResultObj := ?q \<rparr>
        \<lparr> nluResultObj := r, conv := cleanActiveContext (conv (snd (slot_question es s))) \<rparr>) =
      s\<lparr> nluResultObj := r, conv := defaultActiveContext, ticks := Suc (ticks s),
         trace := trace s @ [Execute r] \<rparr>"
    by (simp add: executed_def cleanActiveContext_def slot_question_def Let_def
        split: option.splits)
  have "slotFill E s u =
      (case brain_execute E r of
         Inl msg \<Rightarrow> Thrown (ExecutorError msg)
       | Inr pd \<Rightarrow> Returned (Processed pd),
       s\<lparr> nluResultObj := r, conv := defaultActiveContext, ticks := Suc (ticks s),
          trace := trace s @ [Execute r] \<rparr>)"
    using na dom ents filled st
    by (simp add: slotFill_def Let_def sk [symmetric] p1 sq r [symmetric] split: sum.splits)
  with r_fields show ?thesis by simp
qed

theorem slotFill_all_slots_filled_witness:
  "(let r = slotFill_result (filled_context\<lparr> nextAction := Some ''add'' \<rparr>) ''shopping'' ''list''
              ''/leon/skills/shopping/list/config/en.json''
    in utterance r = Some ''add to my shopping list'' \<and>
       action (classification r) = Some ''add'' \<and>
       confidence (classification r) = Some 1 \<and>
       slotFill E0 (ready\<lparr> conv := filled_context\<lparr> nextAction := Some ''add'' \<rparr> \<rparr>) ''milk'' =
         (Returned (Processed (reply0 r)),
          ready\<lparr> conv := filled_context\<lparr> nextAction := Some ''add'' \<rparr>, nluResultObj := r,
                 conv := defaultActiveContext, ticks := Suc 0, trace := [Execute r] \<rparr>))"
  using slotFill_all_slots_filled
    [of "ready\<lparr> conv := filled_context\<lparr> nextAction := Some ''add'' \<rparr> \<rparr>" "''shopping''"
        "''list''" "''/leon/skills/shopping/list/config/en.json''" E0 "''milk''" "[]"
        "slotFill_result (filled_context\<lparr> nextAction := Some ''add'' \<rparr>) ''shopping'' ''list''
           ''/leon/skills/shopping/list/config/en.json''"]
  by (simp add: E0_simps ready_simps filled_context_simps truthy_def skillName_of_def
      skill_config_path_def ner_extractEntities_def slotFill_query_def
      slot_question_def getNotFilledSlot_def areSlotsAllFilled_def slotFill_result_def
      defaultNluResultObj_def Let_def)

text \<open>
  C5, as the claim has it, fails: all slots of the active context are filled, the context
  has no next action, and \<^verbatim>\<open>slotFill\<close> returns \<^verbatim>\<open>null\<close>; nothing is executed and the
  context stays.
\<close>

theorem slotFill_null_without_next_action:
  "areSlotsAllFilled filled_context \<and>
   slotFill E0 (ready\<lparr> conv := filled_context \<rparr>) ''milk'' =
     (Returned Null, ready\<lparr> conv := filled_context \<rparr>)"
  by (simp add: slotFill_def filled_context_simps truthy_def areSlotsAllFilled_def)

subsection \<open>Unknown intent\<close>

lemma classify_state:
  "snd (classify E s u) = s\<lparr> nluResultObj := nluResultObj (snd (classify E s u)) \<rparr>"
  by (simp add: classify_def split: prod.splits)

lemma pick_classification_conv:
  "conv s' = conv s \<Longrightarrow> pick_classification E s' u = pick_classification E s u"
  by (simp add: pick_classification_def Let_def)

lemma classify_conv:
  assumes "conv s' = conv s"
  shows "fst (classify E s' u) = fst (classify E s u)"
    and "nluResultObj (snd (classify E s' u)) = nluResultObj (snd (classify E s u))"
  unfolding classify_def pick_classification_conv [OF assms]
  by (cases "pick_classification E s u"; simp)+

lemma classify_keeps:
  "brain_lang (snd (classify E s u)) = brain_lang s"
  "brain_isMuted (snd (classify E s u)) = brain_isMuted s"
  "conv (snd (classify E s u)) = conv s"
  "trace (snd (classify E s u)) = trace s"
  "ticks (snd (classify E s u)) = ticks s"
  "ner (snd (classify E s u)) = ner s"
  by (cases "pick_classification E s u"; simp add: classify_def)+

lemma understand_unknown:
  assumes "res_locale (mainNlp_process E u) \<in> set (getShortCodes E)"
    and "brain_lang s = res_locale (mainNlp_process E u)"
    and "fst (classify E s u) = ''None''"
    and "langs_fallbacks E (getLongCode E (res_locale (mainNlp_process E u))) = Some fallbacks"
    and "fallback (nluResultObj (snd (classify E s u))) fallbacks = Inr None"
  shows "understand E s u t0 = Inl (unknown_intent E (snd (classify E s u)) t0)"
proof -
  obtain i s1 where c: "classify E s u = (i, s1)" by (cases "classify E s u")
  have bl: "brain_lang s1 = brain_lang s"
    using classify_keeps(1) [of E s u] c by simp
  show ?thesis using assms c bl
    by (simp add: understand_def fallback_stage_def Let_def)
qed

lemma intent_not_found_path:
  assumes models: "hasNlpModels s"
    and branch: "\<not> (hasActiveContext (conv s) \<and>
                     (isInActionLoop (conv s) \<or> length (ctx_slots (conv s)) > 0))"
    and supported: "res_locale (mainNlp_process E u) \<in> set (getShortCodes E)"
    and current: "brain_lang s = res_locale (mainNlp_process E u)"
    and intent: "fst (classify E s u) = ''None''"
    and table: "langs_fallbacks E (getLongCode E (res_locale (mainNlp_process E u))) = Some fallbacks"
    and nomatch: "fallback (nluResultObj (snd (classify E s u))) fallbacks = Inr None"
  shows "process (Suc n) E s u =
           Some (Returned (NotFound (clock E (Suc (ticks s)) - clock E (ticks s)) ''Intent not found''),
                 s\<lparr> nluResultObj := nluResultObj (snd (classify E s u)),
                    ticks := Suc (Suc (ticks s)),
                    trace := trace s @
                      map (\<lambda>(e, v). AddEntities e v (brain_lang s)) (getSpacyEntities E u) @
                      (if brain_isMuted s then []
                       else [Talk (brain_lang s) [Wernicke ''random_unknown_intents''] True,
                             IsTyping False]) \<rparr>)"
proof -
  let ?s0 = "s\<lparr> ticks := Suc (ticks s) \<rparr>"
  let ?s1 = "mergeSpacyEntities E ?s0 u"
  have conv1: "conv ?s1 = conv s" by (simp add: mergeSpacyEntities_def emit_def)
  have bl1: "brain_lang ?s1 = brain_lang s" by (simp add: mergeSpacyEntities_def emit_def)
  have m0: "hasNlpModels ?s0" using models by (simp add: hasNlpModels_def)
  have u: "understand E ?s1 u (clock E (ticks s)) =
      Inl (unknown_intent E (snd (classify E ?s1 u)) (clock E (ticks s)))"
    by (rule understand_unknown [where fallbacks = fallbacks])
      (simp_all add: supported current intent table nomatch bl1 classify_conv [OF conv1])
  have cs: "snd (classify E ?s1 u) = ?s1\<lparr> nluResultObj := nluResultObj (snd (classify E s u)) \<rparr>"
    using classify_state [of E ?s1 u] classify_conv(2) [OF conv1, of E u] by simp
  have "process (Suc n) E s u = Some (unknown_intent E (snd (classify E ?s1 u)) (clock E (ticks s)))"
    using m0 branch conv1 u by (auto simp add: date_now_def Let_def)
  also have "unknown_intent E (snd (classify E ?s1 u)) (clock E (ticks s)) =
      (Returned (NotFound (clock E (Suc (ticks s)) - clock E (ticks s)) ''Intent not found''),
       s\<lparr> nluResultObj := nluResultObj (snd (classify E s u)),
          ticks := Suc (Suc (ticks s)),
          trace := trace s @
            map (\<lambda>(e, v). AddEntities e v (brain_lang s)) (getSpacyEntities E u) @
            (if brain_isMuted s then []
             else [Talk (brain_lang s) [Wernicke ''random_unknown_intents''] True,
                   IsTyping False]) \<rparr>)"
    unfolding cs
    by (simp add: unknown_intent_def date_now_def mergeSpacyEntities_def emit_def talk_def Let_def)
  finally show ?thesis .
qed

text \<open>
  C7, as the code has it. When the models are loaded, neither the action loop nor the slot
  filling takes the turn, the locale of the classifier's result is supported and is the
  current language, the intent picked is \<^verbatim>\<open>None\<close> and \<^verbatim>\<open>fallback\<close> returns
  \<^verbatim>\<open>false\<close>, then \<^verbatim>\<open>process\<close> resolves with \<^verbatim>\<open>{processingTime, message}\<close>, the message
  being \<open>Intent not found\<close> and the time the difference of the two clock readings; the
  conversation is untouched and nothing is executed. Unless the Brain is muted, the phrase
  \<^verbatim>\<open>random_unknown_intents\<close> is spoken and \<^verbatim>\<open>is-typing\<close> is emitted with \<^verbatim>\<open>false\<close>
  before that; a muted Brain says nothing.
\<close>

theorem process_intent_not_found:
  assumes "hasNlpModels s"
    and "\<not> (hasActiveContext (conv s) \<and>
            (isInActionLoop (conv s) \<or> length (ctx_slots (conv s)) > 0))"
    and "res_locale (mainNlp_process E u) \<in> set (getShortCodes E)"
    and "brain_lang s = res_locale (mainNlp_process E u)"
    and "fst (classify E s u) = ''None''"
    and "langs_fallbacks E (getLongCode E (res_locale (mainNlp_process E u))) = Some fallbacks"
    and "fallback (nluResultObj (snd (classify E s u))) fallbacks = Inr None"
  shows "\<exists>s'. process (Suc n) E s u =
                Some (Returned (NotFound (clock E (Suc (ticks s)) - clock E (ticks s))
                                  ''Intent not found''), s') \<and>
              conv s' = conv s \<and>
              trace s' = trace s @
                map (\<lambda>(e, v). AddEntities e v (brain_lang s)) (getSpacyEntities E u) @
                (if brain_isMuted s then []
                 else [Talk (brain_lang s) [Wernicke ''random_unknown_intents''] True,
                       IsTyping False])"
  using intent_not_found_path [OF assms, of n] by simp

lemma example_unknown_a:
  "conv s = defaultActiveContext \<Longrightarrow> fst (classify E0 s ''asdfghjkl'') = ''None''"
  by (simp add: classify_def pick_classification_def E0_simps none_result_def
      hasActiveContext_def defaultActiveContext_def)

lemma example_unknown_b:
  "conv s = defaultActiveContext \<Longrightarrow> nluResultObj (snd (classify E0 s ''asdfghjkl'')) =
     defaultNluResultObj\<lparr> utterance := Some ''asdfghjkl'', answers := [],
       classification := \<lparr> domain = Some ''default'', skill = Some ''None'', action = None, confidence = Some 1 \<rparr> \<rparr>"
  by (simp add: classify_def pick_classification_def E0_simps none_result_def
      hasActiveContext_def defaultActiveContext_def skillName_of_def actionName_of_def)

lemma example_unknown_c:
  "fallback (defaultNluResultObj\<lparr> utterance := Some ''asdfghjkl'', answers := [],
       classification := \<lparr> domain = Some ''default'', skill = Some ''None'', action = None, confidence = Some 1 \<rparr> \<rparr>)
     [\<lparr> fb_words = [''hello'', ''leon''], fb_domain = ''greetings'', fb_skill = ''hello'',
        fb_action = ''run'' \<rparr>] = Inr None"
  by (simp add: fallback_def toLowerCase_def lower_char_def)


lemma example_unknown:
  assumes "conv s = defaultActiveContext" and "brain_lang s = ''en''"
  shows "\<not> (hasActiveContext (conv s) \<and>
            (isInActionLoop (conv s) \<or> length (ctx_slots (conv s)) > 0))"
    and "res_locale (mainNlp_process E0 ''asdfghjkl'') \<in> set (getShortCodes E0)"
    and "brain_lang s = res_locale (mainNlp_process E0 ''asdfghjkl'')"
    and "fst (classify E0 s ''asdfghjkl'') = ''None''"
    and "langs_fallbacks E0 (getLongCode E0 (res_locale (mainNlp_process E0 ''asdfghjkl''))) =
           Some [\<lparr> fb_words = [''hello'', ''leon''], fb_domain = ''greetings'',
                    fb_skill = ''hello'', fb_action = ''run'' \<rparr>]"
    and "fallback (nluResultObj (snd (classify E0 s ''asdfghjkl'')))
           [\<lparr> fb_words = [''hello'', ''leon''], fb_domain = ''greetings'',
              fb_skill = ''hello'', fb_action = ''run'' \<rparr>] = Inr None"
proof -
  show "\<not> (hasActiveContext (conv s) \<and>
            (isInActionLoop (conv s) \<or> length (ctx_slots (conv s)) > 0))"
    using assms by (simp add: hasActiveContext_def defaultActiveContext_def)
  show "res_locale (mainNlp_process E0 ''asdfghjkl'') \<in> set (getShortCodes E0)"
    by (simp add: E0_simps none_result_def)
  show "brain_lang s = res_locale (mainNlp_process E0 ''asdfghjkl'')"
    using assms by (simp add: E0_simps none_result_def)
  show "fst (classify E0 s ''asdfghjkl'') = ''None''"
    using assms by (simp add: example_unknown_a)
  show "langs_fallbacks E0 (getLongCode E0 (res_locale (mainNlp_process E0 ''asdfghjkl''))) =
           Some [\<lparr> fb_words = [''hello'', ''leon''], fb_domain = ''greetings'',
                    fb_skill = ''hello'', fb_action = ''run'' \<rparr>]"
    by (simp add: E0_simps none_result_def)
  show "fallback (nluResultObj (snd (classify E0 s ''asdfghjkl'')))
           [\<lparr> fb_words = [''hello'', ''leon''], fb_domain = ''greetings'',
              fb_skill = ''hello'', fb_action = ''run'' \<rparr>] = Inr None"
    using assms by (simp only: example_unknown_b example_unknown_c)
qed

theorem process_intent_not_found_witness:
  "\<exists>s'. process (Suc 0) E0 ready ''asdfghjkl'' =
          Some (Returned (NotFound 20 ''Intent not found''), s') \<and>
        conv s' = defaultActiveContext \<and>
        trace s' = [Talk ''en'' [Wernicke ''random_unknown_intents''] True, IsTyping False]"
proof -
  have models: "hasNlpModels ready" by (simp add: hasNlpModels_def ready_simps)
  have c: "conv ready = defaultActiveContext" and l: "brain_lang ready = ''en''"
    by (simp_all add: ready_simps)
  from process_intent_not_found [OF models example_unknown [OF c l], of 0]
  show ?thesis by (simp add: ready_simps E0_simps del: process.simps)
qed

text \<open>
  C7, as the claim has it, fails: with a muted Brain the call resolves with
  \<open>Intent not found\<close> and nothing has been spoken.
\<close>

theorem process_intent_not_found_muted:
  "process (Suc 0) E0 (ready\<lparr> brain_isMuted := True \<rparr>) ''asdfghjkl'' =
     Some (Returned (NotFound 20 ''Intent not found''),
           ready\<lparr> brain_isMuted := True,
                  nluResultObj := nluResultObj (snd (classify E0 ready ''asdfghjkl'')),
                  ticks := Suc (Suc 0), trace := [] \<rparr>)"
proof -
  let ?s = "ready\<lparr> brain_isMuted := True \<rparr>"
  have models: "hasNlpModels ?s" by (simp add: hasNlpModels_def ready_simps)
  have c: "conv ?s = defaultActiveContext" and l: "brain_lang ?s = ''en''"
    by (simp_all add: ready_simps)
  have n: "nluResultObj (snd (classify E0 ?s ''asdfghjkl'')) =
      nluResultObj (snd (classify E0 ready ''asdfghjkl''))"
    by (rule classify_conv(2)) simp
  from intent_not_found_path [OF models example_unknown [OF c l], of 0]
  show ?thesis unfolding n by (simp add: ready_simps E0_simps del: process.simps)
qed

subsection \<open>The stages of a call\<close>

lemma fallback_loop_Some:
  "fallback_loop ws fbs tmp r0 = Some r \<Longrightarrow>
   \<exists>f \<in> set fbs. r = r0\<lparr> entities := [],
                   classification := (classification r0)
                     \<lparr> domain := Some (fb_domain f), skill := Some (fb_skill f),
                       action := Some (fb_action f), confidence := Some 1 \<rparr> \<rparr>"
  by (induction fbs arbitrary: tmp) (auto simp: Let_def split: if_splits)

lemma fallback_Some:
  assumes "fallback r0 fbs = Inr (Some r)"
  shows "\<exists>f \<in> set fbs. r = r0\<lparr> entities := [],
                   classification := (classification r0)
                     \<lparr> domain := Some (fb_domain f), skill := Some (fb_skill f),
                       action := Some (fb_action f), confidence := Some 1 \<rparr> \<rparr>"
  using assms
  by (auto simp: fallback_def Let_def split: option.splits if_splits dest: fallback_loop_Some)

lemma fallback_Some_fields:
  assumes "fallback r0 fbs = Inr (Some r)"
  shows "entities r = [] \<and> confidence (classification r) = Some 1 \<and>
         (\<exists>d. domain (classification r) = Some d) \<and>
         (\<exists>sk. skill (classification r) = Some sk)"
  using fallback_Some [OF assms] by auto

lemma understand_Inr:
  assumes "understand E s u t0 = Inr (i, s2)"
  shows "i = fst (classify E s u) \<and>
         (\<exists>sA sB. fallback_stage E (snd (classify E s u)) i (res_locale (mainNlp_process E u)) t0 = Inr sA \<and>
                  entities_stage E sA = Inr sB \<and>
                  routeSlotFilling E sB i = (Inr False, s2))"
  using assms
  by (auto simp: understand_def Let_def switchLanguage_def
      split: prod.splits if_splits sum.splits bool.splits)

lemma fallback_stage_None_Inr:
  assumes "fallback_stage E s ''None'' loc t0 = Inr sA"
  shows "\<exists>fbs r. langs_fallbacks E (getLongCode E loc) = Some fbs \<and>
                 fallback (nluResultObj s) fbs = Inr (Some r) \<and> sA = s\<lparr> nluResultObj := r \<rparr>"
  using assms
  by (auto simp: fallback_stage_def split: option.splits sum.splits)

lemma entities_stage_Inr:
  assumes "entities_stage E sA = Inr sB"
    and "domain (classification (nluResultObj sA)) = Some d"
    and "skill (classification (nluResultObj sA)) = Some sk"
  shows "nluResultObj sB =
           (nluResultObj sA)
             \<lparr> configDataFilePath := Some (skill_config_path E sA d sk),
               entities :=
                 (case ner_extractEntities E
                         (sA\<lparr> nluResultObj := (nluResultObj sA)
                                \<lparr> configDataFilePath := Some (skill_config_path E sA d sk) \<rparr> \<rparr>)
                         (skill_config_path E sA d sk) of
                    Inr es \<Rightarrow> es
                  | Inl e \<Rightarrow> entities (nluResultObj sA)) \<rparr>"
    and "conv sB = conv sA"
  using assms
  by (auto simp: entities_stage_def Let_def talk_def emit_def split: sum.splits)

lemma setActiveContext_active:
  "hasActiveContext (setActiveContext na cur new)"
  "ctx_slots (setActiveContext na cur new) = ctx_slots new"
  by (simp_all add: setActiveContext_def hasActiveContext_def Let_def)

lemma routeSlotFilling_False:
  assumes "routeSlotFilling E sB i = (Inr False, s2)"
    and "\<not> (hasActiveContext (conv s2) \<and> length (ctx_slots (conv s2)) > 0)"
  shows "s2 = sB"
proof (cases "length (getMandatorySlots E i) > 0")
  case False
  then show ?thesis using assms(1) by (simp add: routeSlotFilling_def Let_def)
next
  case True
  then have "hasActiveContext (conv s2) \<and> length (ctx_slots (conv s2)) > 0"
    using assms(1)
    by (auto simp: routeSlotFilling_def Let_def setActiveContext_active emit_def
        split: option.splits list.splits)
  then show ?thesis using assms(2) by simp
qed

lemma activate_context_result:
  "classification (nluResultObj (activate_context E s i)) = classification (nluResultObj s)"
  "entities (nluResultObj (activate_context E s i)) =
     (if ctx_name (conv s) = Some (context_name (domain (classification (nluResultObj s))) i)
      then ctx_entities (conv s) else []) @ entities (nluResultObj s)"
  by (simp_all add: activate_context_def setActiveContext_def cleanActiveContext_def
      defaultActiveContext_def context_name_def Let_def)

lemma ner_extractEntities_cong:
  "ner a = ner b \<Longrightarrow> brain_lang a = brain_lang b \<Longrightarrow> nluResultObj a = nluResultObj b \<Longrightarrow>
   ner_extractEntities E a p = ner_extractEntities E b p"
  by (simp add: ner_extractEntities_def)

lemma executed_keeps:
  "nluResultObj (executed r s) = nluResultObj s"
  "conv (executed r s) = conv s"
  "brain_isMuted (executed r s) = brain_isMuted s"
  "ticks (executed r s) = Suc (ticks s)"
  "trace (executed r s) = trace s @ [Execute r]"
  by (simp_all add: executed_def)

lemma queue_next_action_keeps:
  "ticks (queue_next_action E pd s) = ticks s"
  "trace (queue_next_action E pd s) = trace s"
  "nluResultObj (queue_next_action E pd s) = nluResultObj s"
  by (simp_all add: queue_next_action_def split: option.splits)



lemma execute_skill_obj:
  "nluResultObj (snd (execute_skill E s i t0)) = nluResultObj (activate_context E s i)"
  by (simp add: execute_skill_def Let_def date_now_def queue_next_action_keeps executed_keeps
      emit_def split: sum.splits)

lemma execute_skill_result:
  assumes "execute_skill E s i t0 = (Returned v, s')"
  shows "nluResultObj s' = nluResultObj (activate_context E s i)"
  using execute_skill_obj [of E s i t0] assms by simp









subsection \<open>Timing\<close>

lemma then_null_not_Timed: "\<not> is_Timed (then_null x)"
  by (cases x rule: then_null.cases) simp_all

lemma caught_null_not_Timed: "\<not> is_Timed (caught_null x)"
  by (cases x rule: caught_null.cases) simp_all

lemma uncaught_Timed: "is_Timed (uncaught x) \<Longrightarrow> is_Timed x"
  by (cases x rule: uncaught.cases) simp_all

lemma caught_reject_Timed: "is_Timed (caught_reject x) \<Longrightarrow> is_Timed x"
  by (cases x rule: caught_reject.cases) simp_all

lemma loop_reply_not_Timed: "\<not> is_Timed (loop_reply pd s)"
  by (simp add: loop_reply_def)

lemma slotFill_not_Timed: "\<not> is_Timed (slotFill E s u)"
  by (simp add: slotFill_def Let_def split: option.splits sum.splits prod.splits)

lemma slot_filled_not_Timed:
  "\<not> is_Timed (Returned v, s0) \<Longrightarrow> \<not> is_Timed (slot_filled E v s)"
  by (cases v) (simp_all add: slot_filled_def split: option.splits)

lemma handleActionLoop_not_Timed:
  "handleActionLoop n E s u = Some x \<Longrightarrow> \<not> is_Timed x"
proof (cases n)
  case 0
  then show "handleActionLoop n E s u = Some x \<Longrightarrow> \<not> is_Timed x" by simp
next
  case (Suc m)
  then show "handleActionLoop n E s u = Some x \<Longrightarrow> \<not> is_Timed x"
    by (auto simp: Let_def then_null_not_Timed caught_null_not_Timed loop_reply_not_Timed
        split: prod.splits sum.splits if_splits option.splits simp del: process.simps)
qed

lemma handleSlotFilling_not_Timed:
  "handleSlotFilling n E s u = Some x \<Longrightarrow> \<not> is_Timed x"
proof (cases n)
  case 0
  then show "handleSlotFilling n E s u = Some x \<Longrightarrow> \<not> is_Timed x" by simp
next
  case (Suc m)
  show "handleSlotFilling n E s u = Some x \<Longrightarrow> \<not> is_Timed x"
  proof -
    assume h: "handleSlotFilling n E s u = Some x"
    obtain c s1 where sf: "slotFill E s u = (c, s1)" by (cases "slotFill E s u")
    have nt: "\<not> is_Timed (c, s1)" using slotFill_not_Timed [of E s u] sf by simp
    show "\<not> is_Timed x"
    proof (cases c)
      case (Returned v)
      show ?thesis
      proof (cases "v = Null")
        case True
        then show ?thesis using h Suc sf Returned
          by (auto simp: then_null_not_Timed simp del: process.simps)
      next
        case False
        then have "x = slot_filled E v s1" using h Suc sf Returned
          by (cases v) (simp_all del: process.simps)
        then show ?thesis using slot_filled_not_Timed [of v s1 E s1] nt Returned by simp
      qed
    next
      case (Thrown e)
      then show ?thesis using h Suc sf by (auto simp del: process.simps)
    next
      case Stuck
      then show ?thesis using h Suc sf by (auto simp del: process.simps)
    qed
  qed
qed


lemma fallback_stage_not_Timed: "fallback_stage E s i loc t0 = Inl x \<Longrightarrow> \<not> is_Timed x"
  by (auto simp: fallback_stage_def unknown_intent_def date_now_def Let_def
      split: if_splits option.splits sum.splits)

lemma entities_stage_not_Timed: "entities_stage E s = Inl x \<Longrightarrow> \<not> is_Timed x"
  by (auto simp: entities_stage_def Let_def split: option.splits sum.splits)

lemma understand_not_Timed: "understand E s u t0 = Inl x \<Longrightarrow> \<not> is_Timed x"
  by (auto simp: understand_def Let_def switchLanguage_def
      dest: fallback_stage_not_Timed entities_stage_not_Timed
      split: prod.splits if_splits sum.splits bool.splits)


lemma merge0: "mergeSpacyEntities E0 s u = s"
  by (simp add: mergeSpacyEntities_def emit_def E0_simps)

lemma process_delete_it:
  "process (Suc 0) E0 ready ''delete it'' =
     (let r = defaultNluResultObj
            \<lparr> utterance := Some ''delete it'',
              configDataFilePath := Some ''/leon/skills/productivity/todolist/config/en.json'',
              classification :=
                \<lparr> domain = Some ''productivity'', skill = Some ''todolist'',
                  action = Some ''delete'', confidence = Some 0.72 \<rparr> \<rparr>
      in Some (Returned (Timed 40 (reply0 r) (Some 35)),
               ready\<lparr> conv := defaultActiveContext
                        \<lparr> ctx_name := Some ''productivity.todolist'', ctx_lang := ''en'',
                          originalUtterance := Some ''delete it'',
                          ctx_configDataFilePath :=
                            Some ''/leon/skills/productivity/todolist/config/en.json'',
                          actionName := Some ''delete'', ctx_domain := Some ''productivity'',
                          ctx_intent := ''todolist.delete'' \<rparr>,
                      nluResultObj := r, ticks := Suc (Suc (Suc 0)), trace := [Execute r] \<rparr>))"
  by (simp add: date_now_def hasNlpModels_def merge0 understand_def classify_def
      pick_classification_def E0_simps ready_simps
      delete_result_def hasActiveContext_def defaultActiveContext_def skillName_of_def
      actionName_of_def fallback_stage_def entities_stage_def skill_config_path_def
      ner_extractEntities_def routeSlotFilling_def Let_def defaultNluResultObj_def
      execute_skill_def activate_context_def setActiveContext_def cleanActiveContext_def
      context_name_def tmpl_null_def emit_def executed_def queue_next_action_def reply0_def)



subsection \<open>Action loop: the utterance is out of topic\<close>

lemma loop_flags_keeps:
  "trace (snd (loop_flags E s u cfg sk it)) = trace s"
  "brain_lang (snd (loop_flags E s u cfg sk it)) = brain_lang s"
  "conv (snd (loop_flags E s u cfg sk it)) = conv s"
  by (simp_all add: loop_flags_def split: sum.splits)

lemma expected_items_keeps:
  "trace (snd (expected_items E s u)) = trace s"
  "brain_lang (snd (expected_items E s u)) = brain_lang s"
  "conv (snd (expected_items E s u)) = conv s"
  by (simp_all add: expected_items_def Let_def loop_flags_keeps split: option.splits sum.splits)

lemma handleActionLoop_reenters:
  assumes "expected_items E s u = (Inr (False, False), s1)"
  shows "handleActionLoop (Suc n) E s u =
           map_option then_null
             (process n E
                (s1\<lparr> conv := defaultActiveContext,
                     trace := trace s @
                       [Talk (brain_lang s) [Wernicke ''random_context_out_of_topic''] False] \<rparr>)
                u)"
proof -
  have k: "trace s1 = trace s" "brain_lang s1 = brain_lang s"
    using expected_items_keeps [of E s u] assms by simp_all
  have "(talk [Wernicke ''random_context_out_of_topic''] False s1)
          \<lparr> conv := cleanActiveContext (conv s1) \<rparr> =
        s1\<lparr> conv := defaultActiveContext,
            trace := trace s @ [Talk (brain_lang s) [Wernicke ''random_context_out_of_topic''] False] \<rparr>"
    by (simp add: talk_def emit_def cleanActiveContext_def k)
  then show ?thesis using assms by (simp del: process.simps)
qed

text \<open>
  C6, as the code has it. When neither the expected entity nor an expected resolver is in
  the utterance, \<^verbatim>\<open>handleActionLoop\<close> speaks the out-of-topic phrase, clears the active
  context and calls \<^verbatim>\<open>process\<close> again with the same utterance; it has executed nothing
  itself (the state it hands over has the trace of the call's start and the phrase). When
  that nested call resolves, whatever its value, \<^verbatim>\<open>handleActionLoop\<close> returns
  \<^verbatim>\<open>null\<close>.
\<close>

theorem handleActionLoop_out_of_topic:
  assumes nomatch: "expected_items E s u = (Inr (False, False), s1)"
    and reentered: "process n E
        (s1\<lparr> conv := defaultActiveContext,
             trace := trace s @
               [Talk (brain_lang s) [Wernicke ''random_context_out_of_topic''] False] \<rparr>)
        u = Some (Returned v, s2)"
  shows "handleActionLoop (Suc n) E s u = Some (Returned Null, s2)"
  using handleActionLoop_reenters [OF nomatch, of n] reentered by simp

lemma guess_context_simps:
  "ctx_name guess_context = Some ''games.guess''"
  "ctx_slots guess_context = []"
  "isInActionLoop guess_context = True"
  "originalUtterance guess_context = Some ''let us play''"
  "ctx_domain guess_context = Some ''games''"
  "ctx_intent guess_context = ''guess.play''"
  "nextAction guess_context = None"
  by (simp_all add: guess_context_def defaultActiveContext_def)

lemmas dispatch_defs =
  date_now_def hasNlpModels_def understand_def classify_def pick_classification_def
  hasActiveContext_def skillName_of_def actionName_of_def fallback_stage_def
  entities_stage_def skill_config_path_def ner_extractEntities_def routeSlotFilling_def
  execute_skill_def activate_context_def setActiveContext_def cleanActiveContext_def
  context_name_def tmpl_null_def emit_def talk_def executed_def queue_next_action_def
  unknown_intent_def fallback_def toLowerCase_def lower_char_def Let_def

lemma guess_items:
  "u = ''asdfghjkl'' \<or> u = ''crash'' \<Longrightarrow>
   expected_items E0 (ready\<lparr> conv := guess_context \<rparr>) u =
     (Inr (False, False),
      ready\<lparr> conv := guess_context,
             nluResultObj := (loop_result guess_context ''games''
                                ''/leon/skills/games/guess/config/en.json'' u)
                             \<lparr> entities := [] \<rparr> \<rparr>)"
  by (auto simp: expected_items_def skillName_of_def actionName_of_def skill_config_path_def
      ner_extractEntities_def loop_result_def loop_expected_item_def loop_flags_def
      tmpl_undefined_def guess_config_def guess_context_simps E0_simps ready_simps Let_def
      defaultNluResultObj_def)

lemma reentered_unknown:
  "\<exists>s2. process (Suc 0) E0
     (ready\<lparr> conv := guess_context,
             nluResultObj := (loop_result guess_context ''games''
                                ''/leon/skills/games/guess/config/en.json'' ''asdfghjkl'')
                             \<lparr> entities := [] \<rparr>,
             conv := defaultActiveContext,
             trace := trace (ready\<lparr> conv := guess_context \<rparr>) @
               [Talk (brain_lang (ready\<lparr> conv := guess_context \<rparr>))
                  [Wernicke ''random_context_out_of_topic''] False] \<rparr>) ''asdfghjkl'' =
     Some (Returned (NotFound 20 ''Intent not found''), s2)"
  by (simp add: dispatch_defs merge0 E0_simps ready_simps none_result_def
      defaultActiveContext_def defaultNluResultObj_def)

lemma reentered_crash:
  "\<exists>s2. process (Suc 0) E0
     (ready\<lparr> conv := guess_context,
             nluResultObj := (loop_result guess_context ''games''
                                ''/leon/skills/games/guess/config/en.json'' ''crash'')
                             \<lparr> entities := [] \<rparr>,
             conv := defaultActiveContext,
             trace := trace (ready\<lparr> conv := guess_context \<rparr>) @
               [Talk (brain_lang (ready\<lparr> conv := guess_context \<rparr>))
                  [Wernicke ''random_context_out_of_topic''] False] \<rparr>) ''crash'' =
     Some (Thrown (ExecutorError ''skill failed''), s2)"
  by (simp add: dispatch_defs merge0 E0_simps ready_simps delete_result_def
      defaultActiveContext_def defaultNluResultObj_def)

theorem handleActionLoop_out_of_topic_witness:
  "\<exists>s2. handleActionLoop (Suc (Suc 0)) E0 (ready\<lparr> conv := guess_context \<rparr>) ''asdfghjkl'' =
          Some (Returned Null, s2)"
proof -
  from reentered_unknown obtain s2 where
    "process (Suc 0) E0
     (ready\<lparr> conv := guess_context,
             nluResultObj := (loop_result guess_context ''games''
                                ''/leon/skills/games/guess/config/en.json'' ''asdfghjkl'')
                             \<lparr> entities := [] \<rparr>,
             conv := defaultActiveContext,
             trace := trace (ready\<lparr> conv := guess_context \<rparr>) @
               [Talk (brain_lang (ready\<lparr> conv := guess_context \<rparr>))
                  [Wernicke ''random_context_out_of_topic''] False] \<rparr>) ''asdfghjkl'' =
     Some (Returned (NotFound 20 ''Intent not found''), s2)" ..
  from handleActionLoop_out_of_topic [OF guess_items this]
  show ?thesis by blast
qed

text \<open>
  C6, as the claim has it, fails: the utterance is out of topic, the nested \<^verbatim>\<open>process\<close>
  runs the skill that the utterance names, the executor throws, the nested promise is
  rejected, and \<^verbatim>\<open>handleActionLoop\<close> throws instead of returning \<^verbatim>\<open>null\<close>.
\<close>

theorem handleActionLoop_reentered_process_rejects:
  "fst (expected_items E0 (ready\<lparr> conv := guess_context \<rparr>) ''crash'') = Inr (False, False) \<and>
   (\<exists>s2. handleActionLoop (Suc (Suc 0)) E0 (ready\<lparr> conv := guess_context \<rparr>) ''crash'' =
           Some (Thrown (ExecutorError ''skill failed''), s2))"
proof -
  from reentered_crash obtain s2 where r:
    "process (Suc 0) E0
     (ready\<lparr> conv := guess_context,
             nluResultObj := (loop_result guess_context ''games''
                                ''/leon/skills/games/guess/config/en.json'' ''crash'')
                             \<lparr> entities := [] \<rparr>,
             conv := defaultActiveContext,
             trace := trace (ready\<lparr> conv := guess_context \<rparr>) @
               [Talk (brain_lang (ready\<lparr> conv := guess_context \<rparr>))
                  [Wernicke ''random_context_out_of_topic''] False] \<rparr>) ''crash'' =
     Some (Thrown (ExecutorError ''skill failed''), s2)" ..
  have g: "expected_items E0 (ready\<lparr> conv := guess_context \<rparr>) ''crash'' =
     (Inr (False, False),
      ready\<lparr> conv := guess_context,
             nluResultObj := (loop_result guess_context ''games''
                                ''/leon/skills/games/guess/config/en.json'' ''crash'')
                             \<lparr> entities := [] \<rparr> \<rparr>)"
    by (rule guess_items) simp
  have "handleActionLoop (Suc (Suc 0)) E0 (ready\<lparr> conv := guess_context \<rparr>) ''crash'' =
      Some (Thrown (ExecutorError ''skill failed''), s2)"
    unfolding handleActionLoop_reenters [OF g] r by simp
  then show ?thesis using g by auto
qed

subsection \<open>Action loop: reading the expected item\<close>

lemma loop_expected_item_declared:
  "(loop_expected_item cfg act = Inr it) \<longleftrightarrow>
   (\<exists>as a. actions cfg = Some as \<and> map_of as (tmpl_undefined act) = Some a \<and>
           cfg_loop a = Some (Some it))"
  by (auto simp: loop_expected_item_def split: option.splits)

lemma loop_expected_item_error:
  "loop_expected_item cfg act = Inl e \<Longrightarrow> e = TypeError"
  by (auto simp: loop_expected_item_def split: option.splits)

text \<open>
  C10, as the code has it. Let the active context have a domain, the extraction of the
  entities return and the configuration file be read and parsed. The read of
  \<^verbatim>\<open>actions[action].loop.expected_item\<close> succeeds exactly when the configuration
  declares it for the action of the context. Then the handler goes on to the matching on
  the type of the item, and an item of type \<open>entity\<close> is matched without any exception.
  Otherwise the read throws a \<^verbatim>\<open>TypeError\<close>, which leaves \<^verbatim>\<open>handleActionLoop\<close>.
\<close>

theorem expected_item_access:
  assumes dom: "ctx_domain (conv s) = Some d"
    and sk: "sk = skillName_of (ctx_intent (conv s))"
    and act: "act = actionName_of (ctx_intent (conv s))"
    and path: "path = skill_config_path E s d sk"
    and extracted: "ner_extractEntities E (s\<lparr> nluResultObj := loop_result (conv s) d path u \<rparr>)
                      path = Inr es"
    and cfg: "readConfig E path = Some cfg"
    and s2: "s2 = s\<lparr> nluResultObj := (loop_result (conv s) d path u)\<lparr> entities := es \<rparr> \<rparr>"
  shows "((\<exists>it. loop_expected_item cfg act = Inr it) \<longleftrightarrow>
          (\<exists>as a it. actions cfg = Some as \<and> map_of as (tmpl_undefined act) = Some a \<and>
                     cfg_loop a = Some (Some it))) \<and>
         (case loop_expected_item cfg act of
            Inr it \<Rightarrow>
              expected_items E s u = loop_flags E s2 u cfg sk it \<and>
              (if item_type it = ''entity''
               then expected_items E s u =
                      (Inr (filter (\<lambda>e. item_name it = entity e) es \<noteq> [], False), s2)
               else True)
          | Inl e \<Rightarrow>
              expected_items E s u = (Inl TypeError, s2) \<and>
              handleActionLoop (Suc n) E s u = Some (Thrown TypeError, s2))"
proof -
  have a2: "action (classification (loop_result (conv s) d path u)) = act"
    by (simp add: loop_result_def act)
  have declared: "(\<exists>it. loop_expected_item cfg act = Inr it) \<longleftrightarrow>
      (\<exists>as a it. actions cfg = Some as \<and> map_of as (tmpl_undefined act) = Some a \<and>
                 cfg_loop a = Some (Some it))"
    using loop_expected_item_declared [of cfg act] by blast
  have rest: "(case loop_expected_item cfg act of
            Inr it \<Rightarrow>
              expected_items E s u = loop_flags E s2 u cfg sk it \<and>
              (if item_type it = ''entity''
               then expected_items E s u =
                      (Inr (filter (\<lambda>e. item_name it = entity e) es \<noteq> [], False), s2)
               else True)
          | Inl e \<Rightarrow>
              expected_items E s u = (Inl TypeError, s2) \<and>
              handleActionLoop (Suc n) E s u = Some (Thrown TypeError, s2))"
  proof (cases "loop_expected_item cfg act")
    case (Inr it)
    have e: "expected_items E s u = loop_flags E s2 u cfg sk it"
      using dom extracted cfg Inr
      by (simp add: expected_items_def Let_def sk [symmetric] path [symmetric] a2 s2)
    have "item_type it = ''entity'' \<Longrightarrow> loop_flags E s2 u cfg sk it =
        (Inr (filter (\<lambda>e. item_name it = entity e) es \<noteq> [], False), s2)"
      by (simp add: loop_flags_def s2)
    with Inr e show ?thesis by simp
  next
    case (Inl e)
    then have e': "loop_expected_item cfg act = Inl TypeError"
      using loop_expected_item_error by blast
    have x: "expected_items E s u = (Inl TypeError, s2)"
      using dom extracted cfg e'
      by (simp add: expected_items_def Let_def sk [symmetric] path [symmetric] a2 s2)
    then have h: "handleActionLoop (Suc n) E s u = Some (Thrown TypeError, s2)"
      by (simp del: process.simps)
    show ?thesis using Inl x h by simp
  qed
  show ?thesis by (rule conjI [OF declared rest])
qed

theorem expected_item_access_witness:
  "expected_items E0 (ready\<lparr> conv := guess_context \<rparr>) ''asdfghjkl'' =
     (Inr (False, False),
      ready\<lparr> conv := guess_context,
             nluResultObj := (loop_result guess_context ''games''
                                ''/leon/skills/games/guess/config/en.json'' ''asdfghjkl'')
                             \<lparr> entities := [] \<rparr> \<rparr>)"
proof -
  let ?s = "ready\<lparr> conv := guess_context \<rparr>"
  let ?path = "''/leon/skills/games/guess/config/en.json''"
  have dom: "ctx_domain (conv ?s) = Some ''games''" by (simp add: guess_context_simps)
  have sk: "''guess'' = skillName_of (ctx_intent (conv ?s))"
    by (simp add: guess_context_simps skillName_of_def)
  have act: "Some ''play'' = actionName_of (ctx_intent (conv ?s))"
    by (simp add: guess_context_simps actionName_of_def)
  have path: "?path = skill_config_path E0 ?s ''games'' ''guess''"
    by (simp add: skill_config_path_def E0_simps ready_simps)
  have extracted: "ner_extractEntities E0
      (?s\<lparr> nluResultObj := loop_result (conv ?s) ''games'' ?path ''asdfghjkl'' \<rparr>) ?path = Inr []"
    by (simp add: ner_extractEntities_def E0_simps ready_simps loop_result_def
        defaultNluResultObj_def)
  have cfg: "readConfig E0 ?path = Some guess_config" by (simp add: E0_simps)
  have item: "loop_expected_item guess_config (Some ''play'') =
      Inr \<lparr> item_name = ''number'', item_type = ''entity'' \<rparr>"
    by (simp add: loop_expected_item_def guess_config_def tmpl_undefined_def)
  note expected_item_access [OF dom sk act path extracted cfg refl, where n = 0,
      THEN conjunct2, unfolded item sum.case, THEN conjunct2]
  then show ?thesis by simp
qed

text \<open>
  C10, as the claim has it, fails: the read is not the only unguarded failure point before
  the matching. Here the configuration declares the expected item and the extraction of the
  entities, which no \<^verbatim>\<open>try\<close> encloses, throws: the exception leaves
  \<^verbatim>\<open>handleActionLoop\<close>.
\<close>

theorem handleActionLoop_extraction_throws:
  "loop_expected_item guess_config (actionName_of (ctx_intent guess_context)) =
     Inr \<lparr> item_name = ''number'', item_type = ''entity'' \<rparr> \<and>
   handleActionLoop (Suc 0) E0 (ready\<lparr> conv := guess_context \<rparr>) ''boom'' =
     Some (Thrown (NerError ''random_ner_error''),
           ready\<lparr> conv := guess_context,
                  nluResultObj := loop_result guess_context ''games''
                                    ''/leon/skills/games/guess/config/en.json'' ''boom'' \<rparr>)"
  by (simp add: expected_items_def skillName_of_def actionName_of_def skill_config_path_def
      ner_extractEntities_def loop_result_def loop_expected_item_def
      tmpl_undefined_def guess_config_def guess_context_simps E0_simps ready_simps Let_def
      defaultNluResultObj_def del: process.simps)

text \<open>
  The two exits of lines 315 to 323, which no \<^verbatim>\<open>try\<close> encloses: an exception of the
  extraction and a configuration file that cannot be read or parsed both leave
  \<^verbatim>\<open>handleActionLoop\<close>, whatever the configuration declares.
\<close>

lemma handleActionLoop_unguarded:
  assumes dom: "ctx_domain (conv s) = Some d"
    and path: "path = skill_config_path E s d (skillName_of (ctx_intent (conv s)))"
    and s1: "s1 = s\<lparr> nluResultObj := loop_result (conv s) d path u \<rparr>"
  shows "ner_extractEntities E s1 path = Inl e \<Longrightarrow>
           handleActionLoop (Suc n) E s u = Some (Thrown e, s1)"
    and "ner_extractEntities E s1 path = Inr es \<Longrightarrow> readConfig E path = None \<Longrightarrow>
           handleActionLoop (Suc n) E s u =
             Some (Thrown ReadError, s1\<lparr> nluResultObj := (nluResultObj s1)\<lparr> entities := es \<rparr> \<rparr>)"
  using dom
  by (simp_all add: expected_items_def Let_def path s1 del: process.simps)

subsection \<open>A fallback match on its way to the executor\<close>

lemma process_Timed_path:
  assumes "process (Suc n) E s u = Some (Returned (Timed pt pd nt), s')"
  shows "\<exists>i s2. understand E (mergeSpacyEntities E (s\<lparr> ticks := Suc (ticks s) \<rparr>) u) u
                   (clock E (ticks s)) = Inr (i, s2) \<and>
                \<not> (hasActiveContext (conv s2) \<and> length (ctx_slots (conv s2)) > 0) \<and>
                execute_skill E s2 i (clock E (ticks s)) = (Returned (Timed pt pd nt), s')"
proof -
  let ?x = "(Returned (Timed pt pd nt), s')"
  let ?s1 = "mergeSpacyEntities E (s\<lparr> ticks := Suc (ticks s) \<rparr>) u"
  have T: "is_Timed ?x" by simp
  have no_loop: "map_option uncaught (handleActionLoop n E z u) \<noteq> Some ?x" for z
    using handleActionLoop_not_Timed uncaught_Timed T
    by (metis (no_types, lifting) map_option_eq_Some)
  have no_slot: "map_option caught_reject (handleSlotFilling n E z u) \<noteq> Some ?x" for z
    using handleSlotFilling_not_Timed caught_reject_Timed T
    by (metis (no_types, lifting) map_option_eq_Some)
  have no_miss: "models_missing z \<noteq> ?x" for z by (simp add: models_missing_def)
  from assms show ?thesis
    using no_loop no_slot no_miss understand_not_Timed [of E ?s1 u "clock E (ticks s)"] T
    by (auto simp: date_now_def Let_def split: if_splits sum.splits prod.splits)
qed

text \<open>
  C1, as the code has it. Let \<^verbatim>\<open>process\<close> resolve with the reply of the normal path when
  the intent picked is \<^verbatim>\<open>None\<close>. Then \<^verbatim>\<open>fallback\<close> matched: the object \<open>r\<close> it
  returned has confidence 1 and no entities. The result object given to the executor has
  the classification of \<open>r\<close>, hence confidence 1 too; its entities are those that the
  NER gateway extracts for the skill of the fallback (none when the extraction throws),
  after those of the active context when a context of that name was active already.
\<close>

theorem fallback_match_result:
  assumes run: "process (Suc n) E s u = Some (Returned (Timed pt pd nt), s')"
    and none: "fst (classify E s u) = ''None''"
  shows "\<exists>fallbacks r d sk.
      langs_fallbacks E (getLongCode E (res_locale (mainNlp_process E u))) = Some fallbacks \<and>
      fallback (nluResultObj (snd (classify E s u))) fallbacks = Inr (Some r) \<and>
      entities r = [] \<and>
      domain (classification r) = Some d \<and> skill (classification r) = Some sk \<and>
      confidence (classification r) = Some 1 \<and>
      classification (nluResultObj s') = classification r \<and>
      entities (nluResultObj s') =
        (if ctx_name (conv s) = Some (context_name (Some d) ''None'')
         then ctx_entities (conv s) else []) @
        (case ner_extractEntities E
                (s\<lparr> nluResultObj := r\<lparr> configDataFilePath := Some (skill_config_path E s d sk) \<rparr> \<rparr>)
                (skill_config_path E s d sk) of
           Inr es \<Rightarrow> es
         | Inl e \<Rightarrow> [])"
proof -
  let ?s1 = "mergeSpacyEntities E (s\<lparr> ticks := Suc (ticks s) \<rparr>) u"
  let ?t0 = "clock E (ticks s)"
  let ?loc = "res_locale (mainNlp_process E u)"
  have conv1: "conv ?s1 = conv s" and bl1: "brain_lang ?s1 = brain_lang s"
    and ner1: "ner ?s1 = ner s"
    by (simp_all add: mergeSpacyEntities_def emit_def)
  from process_Timed_path [OF run] obtain i s2 where
    u: "understand E ?s1 u ?t0 = Inr (i, s2)" and
    noslots: "\<not> (hasActiveContext (conv s2) \<and> length (ctx_slots (conv s2)) > 0)" and
    ex: "execute_skill E s2 i ?t0 = (Returned (Timed pt pd nt), s')"
    by blast
  let ?sC = "snd (classify E ?s1 u)"
  from understand_Inr [OF u] obtain sA sB where
    i: "i = fst (classify E ?s1 u)" and
    fs: "fallback_stage E ?sC i ?loc ?t0 = Inr sA" and
    es: "entities_stage E sA = Inr sB" and
    rs: "routeSlotFilling E sB i = (Inr False, s2)"
    by blast
  have i_none: "i = ''None''" using i none classify_conv(1) [OF conv1, of E u] by simp
  have objC: "nluResultObj ?sC = nluResultObj (snd (classify E s u))"
    by (rule classify_conv(2) [OF conv1])
  from fallback_stage_None_Inr [OF fs [unfolded i_none]] obtain fbs r where
    table: "langs_fallbacks E (getLongCode E ?loc) = Some fbs" and
    fb: "fallback (nluResultObj ?sC) fbs = Inr (Some r)" and
    sA: "sA = ?sC\<lparr> nluResultObj := r \<rparr>"
    by blast
  from fallback_Some_fields [OF fb] obtain d sk where
    r_ent: "entities r = []" and r_dom: "domain (classification r) = Some d" and
    r_sk: "skill (classification r) = Some sk" and
    r_conf: "confidence (classification r) = Some 1"
    by blast
  have keepA: "conv sA = conv s" "brain_lang sA = brain_lang s" "ner sA = ner s"
    "nluResultObj sA = r"
    by (simp_all add: sA classify_keeps conv1 bl1 ner1)
  have pathA: "skill_config_path E sA d sk = skill_config_path E s d sk"
    by (simp add: skill_config_path_def keepA)
  let ?path = "skill_config_path E s d sk"
  have nerA: "ner_extractEntities E (sA\<lparr> nluResultObj := r
                                \<lparr> configDataFilePath := Some ?path \<rparr> \<rparr>) ?path =
      ner_extractEntities E (s\<lparr> nluResultObj := r\<lparr> configDataFilePath := Some ?path \<rparr> \<rparr>) ?path"
    by (rule ner_extractEntities_cong) (simp_all add: keepA)
  from entities_stage_Inr [OF es, of d sk] r_dom r_sk
  have objB: "nluResultObj sB = r
             \<lparr> configDataFilePath := Some ?path,
               entities :=
                 (case ner_extractEntities E
                         (s\<lparr> nluResultObj := r\<lparr> configDataFilePath := Some ?path \<rparr> \<rparr>) ?path of
                    Inr es \<Rightarrow> es
                  | Inl e \<Rightarrow> []) \<rparr>" and convB: "conv sB = conv s"
    by (simp_all add: keepA pathA nerA r_ent cong: sum.case_cong)
  have s2: "s2 = sB" by (rule routeSlotFilling_False [OF rs noslots])
  have final: "nluResultObj s' = nluResultObj (activate_context E sB i)"
    using execute_skill_result [OF ex] s2 by simp
  have cl: "classification (nluResultObj s') = classification r"
    by (simp add: final activate_context_result objB)
  have ents: "entities (nluResultObj s') =
        (if ctx_name (conv s) = Some (context_name (Some d) ''None'')
         then ctx_entities (conv s) else []) @
        (case ner_extractEntities E
                (s\<lparr> nluResultObj := r\<lparr> configDataFilePath := Some ?path \<rparr> \<rparr>) ?path of
           Inr es \<Rightarrow> es
         | Inl e \<Rightarrow> [])"
    by (simp add: final activate_context_result objB convB i_none r_dom)
  show ?thesis
    using table fb [unfolded objC] r_ent r_dom r_sk r_conf cl ents by blast
qed

lemma process_hello_leon:
  "process (Suc 0) E0 ready ''hello leon'' =
     (let person = \<lparr> entity = ''person'', sourceText = ''leon'' \<rparr>;
          r = defaultNluResultObj
            \<lparr> utterance := Some ''hello leon'', currentEntities := [person],
              entities := [person],
              configDataFilePath := Some ''/leon/skills/greetings/hello/config/en.json'',
              classification :=
                \<lparr> domain = Some ''greetings'', skill = Some ''hello'',
                  action = Some ''run'', confidence = Some 1 \<rparr> \<rparr>
      in Some (Returned (Timed 40 (reply0 r) (Some 35)),
               ready\<lparr> conv := defaultActiveContext
                        \<lparr> ctx_name := Some ''greetings.None'', ctx_lang := ''en'',
                          originalUtterance := Some ''hello leon'',
                          ctx_configDataFilePath :=
                            Some ''/leon/skills/greetings/hello/config/en.json'',
                          actionName := Some ''run'', ctx_domain := Some ''greetings'',
                          ctx_intent := ''None'', ctx_entities := [person],
                          ctx_currentEntities := [person] \<rparr>,
                      nluResultObj := r, ticks := Suc (Suc (Suc 0)), trace := [Execute r] \<rparr>))"
  by (simp add: dispatch_defs merge0 E0_simps ready_simps none_result_def
      defaultActiveContext_def defaultNluResultObj_def reply0_def)

lemma classify_hello_leon: "fst (classify E0 ready ''hello leon'') = ''None''"
  by (simp add: classify_def pick_classification_def E0_simps ready_simps none_result_def
      hasActiveContext_def defaultActiveContext_def)

theorem fallback_match_result_witness:
  "\<exists>pd s' r. process (Suc 0) E0 ready ''hello leon'' = Some (Returned (Timed 40 pd (Some 35)), s') \<and>
     fallback (nluResultObj (snd (classify E0 ready ''hello leon'')))
       [\<lparr> fb_words = [''hello'', ''leon''], fb_domain = ''greetings'', fb_skill = ''hello'',
          fb_action = ''run'' \<rparr>] = Inr (Some r) \<and>
     entities r = [] \<and> confidence (classification r) = Some 1 \<and>
     classification (nluResultObj s') = classification r"
proof -
  obtain pd s' where run: "process (Suc 0) E0 ready ''hello leon'' =
      Some (Returned (Timed 40 pd (Some 35)), s')"
    using process_hello_leon by (simp add: Let_def del: process.simps)
  from fallback_match_result [OF run classify_hello_leon]
  obtain fallbacks r where
    t: "langs_fallbacks E0 (getLongCode E0 (res_locale (mainNlp_process E0 ''hello leon''))) =
        Some fallbacks" and
    f: "fallback (nluResultObj (snd (classify E0 ready ''hello leon''))) fallbacks = Inr (Some r)"
    and e: "entities r = []" and c: "confidence (classification r) = Some 1"
    and k: "classification (nluResultObj s') = classification r"
    by (elim exE conjE)
  from t have "fallbacks = [\<lparr> fb_words = [''hello'', ''leon''], fb_domain = ''greetings'',
      fb_skill = ''hello'', fb_action = ''run'' \<rparr>]"
    by (simp add: E0_simps none_result_def)
  with run f e c k show ?thesis by (auto simp del: process.simps)
qed

text \<open>
  C1, as the claim has it, fails: the classifier answers \<^verbatim>\<open>None\<close>, the fallback
  \<open>{hello, leon}\<close> matches, the NER gateway finds a person in the utterance, and the result
  object of the turn has confidence 1 and one entity.
\<close>

theorem fallback_match_entities_extracted:
  "\<exists>pd s'. process (Suc 0) E0 ready ''hello leon'' = Some (Returned (Timed 40 pd (Some 35)), s') \<and>
     fst (classify E0 ready ''hello leon'') = ''None'' \<and>
     fallback (nluResultObj (snd (classify E0 ready ''hello leon'')))
       [\<lparr> fb_words = [''hello'', ''leon''], fb_domain = ''greetings'', fb_skill = ''hello'',
          fb_action = ''run'' \<rparr>] \<noteq> Inr None \<and>
     confidence (classification (nluResultObj s')) = Some 1 \<and>
     entities (nluResultObj s') = [\<lparr> entity = ''person'', sourceText = ''leon'' \<rparr>]"
  by (simp add: process_hello_leon classify_hello_leon Let_def del: process.simps)
    (simp add: classify_def pick_classification_def E0_simps ready_simps none_result_def
      hasActiveContext_def defaultActiveContext_def fallback_def toLowerCase_def lower_char_def
      defaultNluResultObj_def)

subsection \<open>The classification that a call in a context ends with\<close>






end
